theory Spec2Isabelle
  imports Main "HOL-Library.Word" "HOL-Library.Sublist"
begin

unbundle bit_operations_syntax

section \<open>Values, errors and the library interface\<close>

type_synonym byte = "8 word"
type_synonym bytes = "byte list"

text \<open>
  Python values as they occur in the envelope and in the decrypted payload. A \<open>dict\<close>
  with string keys is an association list in insertion order (the order \<open>json.dumps\<close>
  writes and \<open>json.loads\<close> restores). Floats are not modelled; the clock reading stored
  in key metadata is carried as an opaque value.
\<close>

datatype pyval =
    PNone
  | PBool bool
  | PInt int
  | PStr string
  | PBytes bytes
  | PList "pyval list"
  | PDict "(string \<times> pyval) list"

type_synonym pydict = "(string \<times> pyval) list"

text \<open>
  Exceptions as values. A message built by an f-string keeps its literal part; the
  interpolated exception is kept as the cause, other interpolated values are dropped.
\<close>

datatype error =
    KeyError string
  | TypeError
  | ValueError
  | AttributeError
  | JSONDecodeError
  | UnicodeDecodeError
  | Base64Error
  | InvalidTag
  | KemError
  | EncryptionError string "error option"
  | DecryptionError string "error option"
  | QKDServiceError string "error option"
  | HTTPException nat string
  | HTTPStatusError nat

text \<open>
  The functions of the libraries the repository calls (\<open>cryptography\<close>, \<open>kyberk2so\<close>,
  \<open>json\<close>, \<open>base64\<close>, the \<open>bytes\<close> and \<open>str\<close> builtins) are parameters of the model.
  SHA-256 returns a 256-bit digest, read as 32 big-endian bytes. The randomised KEM
  operations take their coins as an argument. \<open>b64encode\<close> stands for
  \<open>base64.b64encode(x).decode('utf-8')\<close>.
\<close>

record lib =
  sha256 :: "bytes \<Rightarrow> 256 word"
  utf8_encode :: "string \<Rightarrow> bytes"
  utf8_decode :: "bytes \<Rightarrow> string option"
  bytes_hex :: "bytes \<Rightarrow> string"
  bytes_fromhex :: "string \<Rightarrow> bytes option"
  b64encode :: "bytes \<Rightarrow> string"
  b64decode :: "string \<Rightarrow> bytes option"
  json_dumps :: "pyval \<Rightarrow> string"
  json_loads :: "string \<Rightarrow> pyval option"
  json_loads_bytes :: "bytes \<Rightarrow> pyval option"
  pbkdf2_hmac :: "nat \<Rightarrow> nat \<Rightarrow> bytes \<Rightarrow> bytes \<Rightarrow> bytes"
  aes_gcm_encrypt :: "bytes \<Rightarrow> bytes \<Rightarrow> bytes \<Rightarrow> error + bytes \<times> bytes"
  aes_gcm_decrypt :: "bytes \<Rightarrow> bytes \<Rightarrow> bytes \<Rightarrow> bytes \<Rightarrow> error + bytes"
  kem_keypair_512 :: "bytes \<Rightarrow> bytes \<times> bytes"
  kem_encrypt_512 :: "bytes \<Rightarrow> bytes \<Rightarrow> error + bytes \<times> bytes"
  kem_decrypt_512 :: "bytes \<Rightarrow> bytes \<Rightarrow> error + bytes"

definition digest_bytes :: "256 word \<Rightarrow> bytes" where
  "digest_bytes w = map (\<lambda>i. ucast (drop_bit (8 * (31 - i)) w)) [0..<32]"

text \<open>\<open>h = hashes.Hash(hashes.SHA256()); h.update(data); h.finalize()\<close>\<close>

definition sha256_digest :: "lib \<Rightarrow> bytes \<Rightarrow> bytes" where
  "sha256_digest L data = digest_bytes (sha256 L data)"

text \<open>Python's \<open>xs[:n]\<close>: a negative bound counts from the end.\<close>

definition slice_to :: "'a list \<Rightarrow> int \<Rightarrow> 'a list" where
  "slice_to xs n = (if n < 0 then take (nat (int (length xs) + n)) xs else take (nat n) xs)"

section \<open>qkd\_service.py: MockQKDClient\<close>

text \<open>
  The \<open>while len(key) < key_length\<close> loop of \<open>get_deterministic_key\<close>, on the loop
  variables \<open>seed\<close> and \<open>key\<close>.
\<close>

function expand_loop :: "lib \<Rightarrow> bytes \<Rightarrow> bytes \<Rightarrow> int \<Rightarrow> bytes" where
  "expand_loop L seed key key_length =
     (if int (length key) < key_length
      then (let next_block = sha256_digest L seed
            in expand_loop L next_block (key @ next_block) key_length)
      else key)"
  by pat_completeness auto
termination
  by (relation "measure (\<lambda>(L, seed, key, n). nat (n - int (length key)))")
     (auto simp: sha256_digest_def digest_bytes_def)

declare expand_loop.simps [simp del]

definition get_deterministic_key :: "lib \<Rightarrow> string \<Rightarrow> int \<Rightarrow> bytes" where
  "get_deterministic_key L key_id key_length =
     (let seed = sha256_digest L (utf8_encode L key_id);
          key = expand_loop L seed [] key_length
      in slice_to key key_length)"

subsection \<open>The hash chain as the specification words it\<close>

text \<open>
  The seed is the hash of the identifier; each block is the hash of the previous one
  (the first block is the hash of the seed); the blocks are concatenated and the result
  is cut to \<open>n\<close> bytes. \<open>chain_blocks L prev k\<close> are the \<open>k\<close> blocks that follow \<open>prev\<close>.
\<close>

fun chain_blocks :: "lib \<Rightarrow> bytes \<Rightarrow> nat \<Rightarrow> bytes list" where
  "chain_blocks L prev 0 = []"
| "chain_blocks L prev (Suc k) = sha256_digest L prev # chain_blocks L (sha256_digest L prev) k"

definition hash_chain_spec :: "lib \<Rightarrow> string \<Rightarrow> nat \<Rightarrow> bytes" where
  "hash_chain_spec L key_id n =
     take n (concat (chain_blocks L (sha256_digest L (utf8_encode L key_id)) ((n + 31) div 32)))"

section \<open>pqc\_key\_server.py: the single-use symmetric keys\<close>

text \<open>
  The table \<open>symmetric_keys (key_id TEXT PRIMARY KEY, key_hex TEXT)\<close> is a map from
  \<open>key_id\<close> to \<open>key_hex\<close>. The SQLite statements are taken to succeed, except the
  \<open>INSERT\<close> of a \<open>key_id\<close> that exists, which the primary key refuses. The random
  draws are arguments: \<open>uuid\<close> is \<open>str(uuid.uuid4())\<close>, \<open>token_bytes n\<close> the \<open>n\<close> bytes
  behind \<open>secrets.token_hex(n)\<close>.
\<close>

type_synonym symmetric_keys = "string \<rightharpoonup> string"

definition get_symmetric_key ::
  "lib \<Rightarrow> string \<Rightarrow> (nat \<Rightarrow> bytes) \<Rightarrow> symmetric_keys \<Rightarrow> int
     \<Rightarrow> (error + string \<times> string) \<times> symmetric_keys" where
  "get_symmetric_key L uuid token_bytes db key_length_bytes =
     (if key_length_bytes < 0 then (Inl (HTTPException 500 ''Internal Server Error''), db)
      else
        let key_id = uuid;
            key_hex = bytes_hex L (token_bytes (nat key_length_bytes))
        in if db key_id \<noteq> None then (Inl (HTTPException 500 ''Database error.''), db)
           else (Inr (key_id, key_hex), db(key_id \<mapsto> key_hex)))"

definition get_symmetric_key_by_id ::
  "symmetric_keys \<Rightarrow> string \<Rightarrow> (error + string) \<times> symmetric_keys" where
  "get_symmetric_key_by_id db key_id =
     (case db key_id of
        None \<Rightarrow> (Inl (HTTPException 404 ''Symmetric key not found.''), db)
      | Some key_hex \<Rightarrow> (Inr key_hex, db(key_id := None)))"

text \<open>
  The requests that touch the table, and the table after a sequence of them.
\<close>

datatype request =
    GetSymmetricKey string "nat \<Rightarrow> bytes" int
  | GetSymmetricKeyById string

fun serve :: "lib \<Rightarrow> symmetric_keys \<Rightarrow> request \<Rightarrow> symmetric_keys" where
  "serve L db (GetSymmetricKey uuid token_bytes n) = snd (get_symmetric_key L uuid token_bytes db n)"
| "serve L db (GetSymmetricKeyById key_id) = snd (get_symmetric_key_by_id db key_id)"

fun minted :: "request \<Rightarrow> string set" where
  "minted (GetSymmetricKey uuid token_bytes n) = {uuid}"
| "minted (GetSymmetricKeyById key_id) = {}"

text \<open>
  \<open>CryptoService.get_symmetric_key\<close> and \<open>CryptoService.get_symmetric_key_by_id\<close>:
  the client side. \<open>raise_for_status\<close> turns an error response into
  \<open>httpx.HTTPStatusError\<close> with the status code; the transport is taken to deliver.
\<close>

definition crypto_get_symmetric_key ::
  "lib \<Rightarrow> string \<Rightarrow> (nat \<Rightarrow> bytes) \<Rightarrow> symmetric_keys \<Rightarrow> int
     \<Rightarrow> (error + string \<times> string) \<times> symmetric_keys" where
  "crypto_get_symmetric_key L uuid token_bytes db key_length_bytes =
     (case get_symmetric_key L uuid token_bytes db key_length_bytes of
        (Inl (HTTPException code detail), db') \<Rightarrow> (Inl (HTTPStatusError code), db')
      | (Inl e, db') \<Rightarrow> (Inl e, db')
      | (Inr (key_id, key_hex), db') \<Rightarrow> (Inr (key_id, key_hex), db'))"

definition crypto_get_symmetric_key_by_id ::
  "symmetric_keys \<Rightarrow> string \<Rightarrow> (error + string) \<times> symmetric_keys" where
  "crypto_get_symmetric_key_by_id db key_id =
     (case get_symmetric_key_by_id db key_id of
        (Inl (HTTPException code detail), db') \<Rightarrow> (Inl (HTTPStatusError code), db')
      | (Inl e, db') \<Rightarrow> (Inl e, db')
      | (Inr key_hex, db') \<Rightarrow> (Inr key_hex, db'))"

section \<open>Dictionaries and Python idioms\<close>

text \<open>\<open>d[k]\<close> on a dict: \<open>KeyError\<close> when the key is absent.\<close>

definition getitem :: "pydict \<Rightarrow> string \<Rightarrow> error + pyval" where
  "getitem d k = (case map_of d k of None \<Rightarrow> Inl (KeyError k) | Some v \<Rightarrow> Inr v)"

text \<open>\<open>v[k]\<close> with a string \<open>k\<close> on any value: only a dict can be indexed by a string.\<close>

definition subscript :: "pyval \<Rightarrow> string \<Rightarrow> error + pyval" where
  "subscript v k = (case v of PDict d \<Rightarrow> getitem d k | _ \<Rightarrow> Inl TypeError)"

text \<open>\<open>d[k] = v\<close>: an existing key keeps its place, a new key goes last.\<close>

definition setitem :: "pydict \<Rightarrow> string \<Rightarrow> pyval \<Rightarrow> pydict" where
  "setitem d k v =
     (if k \<in> fst ` set d then map (\<lambda>(k', v'). if k' = k then (k', v) else (k', v')) d
      else d @ [(k, v)])"

text \<open>\<open>x == n\<close> for an integer literal \<open>n\<close>: \<open>True == 1\<close> and \<open>False == 0\<close> hold in Python.\<close>

definition eq_int :: "pyval \<Rightarrow> int \<Rightarrow> bool" where
  "eq_int x n = (case x of PInt i \<Rightarrow> i = n | PBool b \<Rightarrow> (if b then 1 else 0) = n | _ \<Rightarrow> False)"

text \<open>A value used as an integer in a comparison and a slice bound.\<close>

definition as_int :: "pyval \<Rightarrow> int option" where
  "as_int x = (case x of PInt i \<Rightarrow> Some i | PBool b \<Rightarrow> Some (if b then 1 else 0) | _ \<Rightarrow> None)"

text \<open>\<open>if s:\<close> on an optional string: \<open>None\<close> and \<open>""\<close> are false.\<close>

definition truthy :: "string option \<Rightarrow> bool" where
  "truthy s = (case s of None \<Rightarrow> False | Some x \<Rightarrow> x \<noteq> [])"

text \<open>\<open>bytes(x ^ y for x, y in zip(a, b))\<close>: as long as the shorter argument.\<close>

definition xor_zip :: "bytes \<Rightarrow> bytes \<Rightarrow> bytes" where
  "xor_zip a b = map (\<lambda>(x, y). x XOR y) (zip a b)"

text \<open>\<open>a.ljust(n, b'\0')\<close>\<close>

definition ljust :: "bytes \<Rightarrow> nat \<Rightarrow> bytes" where
  "ljust a n = a @ replicate (n - length a) 0"

text \<open>\<open>bytes.fromhex(x)\<close> and \<open>base64.b64decode(v[k])\<close> on values read from a dict.\<close>

definition fromhex_val :: "lib \<Rightarrow> pyval \<Rightarrow> error + bytes" where
  "fromhex_val L x =
     (case x of
        PStr s \<Rightarrow> (case bytes_fromhex L s of None \<Rightarrow> Inl ValueError | Some b \<Rightarrow> Inr b)
      | _ \<Rightarrow> Inl TypeError)"

definition b64decode_val :: "lib \<Rightarrow> pyval \<Rightarrow> error + bytes" where
  "b64decode_val L x =
     (case x of
        PStr s \<Rightarrow> (case b64decode L s of None \<Rightarrow> Inl Base64Error | Some b \<Rightarrow> Inr b)
      | _ \<Rightarrow> Inl TypeError)"

definition b64_field :: "lib \<Rightarrow> pyval \<Rightarrow> string \<Rightarrow> error + bytes" where
  "b64_field L v k = (case subscript v k of Inl e \<Rightarrow> Inl e | Inr x \<Rightarrow> b64decode_val L x)"

section \<open>qkd\_service.py: QKDService\<close>

text \<open>
  The service object: \<open>qkd_client\<close> is \<open>None\<close> (False) or the mock client (True);
  \<open>_quantum_keys_cache\<close> maps a key id to its metadata dict. The Firebase realtime
  database is the external store: a map from the node name to the JSON stored there,
  and whether a request to it succeeds.
\<close>

record qkd_service =
  qkd_client :: bool
  quantum_keys_cache :: "string \<rightharpoonup> pydict"

record firebase =
  fb_online :: bool
  fb_nodes :: "string \<rightharpoonup> pyval"

text \<open>\<open>key_id.replace('.', '(dot)')\<close>\<close>

definition safe_key_id :: "string \<Rightarrow> string" where
  "safe_key_id key_id = concat (map (\<lambda>c. if c = CHR ''.'' then ''(dot)'' else [c]) key_id)"

text \<open>
  \<open>_store_key_metadata_in_firebase\<close>: every exception is caught and logged, the store
  is then unchanged. The stored record leaves \<open>key_hex\<close> out.
\<close>

definition store_key_metadata_in_firebase :: "firebase \<Rightarrow> string \<Rightarrow> pydict \<Rightarrow> firebase" where
  "store_key_metadata_in_firebase F key_id key_metadata =
     (case (map_of key_metadata ''key_id'', map_of key_metadata ''key_length_bytes'',
            map_of key_metadata ''timestamp'', map_of key_metadata ''recipient_email'',
            map_of key_metadata ''source'') of
        (Some kid, Some len, Some ts, Some rcpt, Some src) \<Rightarrow>
          (let metadata_to_store =
                 [(''key_id'', kid), (''key_length_bytes'', len), (''timestamp'', ts),
                  (''recipient_email'', rcpt), (''source'', src)]
           in if fb_online F
              then F\<lparr>fb_nodes := (fb_nodes F)(safe_key_id key_id \<mapsto> PDict metadata_to_store)\<rparr>
              else F)
      | _ \<Rightarrow> F)"

text \<open>
  \<open>_get_key_metadata_from_firebase\<close>: the stored JSON when it is a dict, \<open>None\<close>
  otherwise and on every exception.
\<close>

definition get_key_metadata_from_firebase :: "firebase \<Rightarrow> string \<Rightarrow> pydict option" where
  "get_key_metadata_from_firebase F key_id =
     (if fb_online F
      then (case fb_nodes F (safe_key_id key_id) of Some (PDict data) \<Rightarrow> Some data | _ \<Rightarrow> None)
      else None)"

text \<open>
  \<open>QKDService.get_quantum_key\<close>. \<open>rnd\<close> is \<open>os.urandom(16)\<close>, \<open>now\<close> the reading of the
  event loop's clock. With typed arguments nothing in the \<open>try\<close> block raises.
\<close>

definition qkd_get_quantum_key ::
  "lib \<Rightarrow> bytes \<Rightarrow> pyval \<Rightarrow> qkd_service \<Rightarrow> firebase \<Rightarrow> int \<Rightarrow> string option
     \<Rightarrow> (error + pydict) \<times> qkd_service \<times> firebase" where
  "qkd_get_quantum_key L rnd now S F key_length_bytes recipient_email =
     (let S1 = (if \<not> qkd_client S then S\<lparr>qkd_client := True\<rparr> else S);
          key_id = ''qkd_'' @ bytes_hex L rnd;
          quantum_key = get_deterministic_key L key_id key_length_bytes;
          key_hex = bytes_hex L quantum_key;
          key_metadata =
            [(''key_id'', PStr key_id), (''key_hex'', PStr key_hex),
             (''key_length_bytes'', PInt key_length_bytes), (''timestamp'', now),
             (''recipient_email'', (case recipient_email of None \<Rightarrow> PNone | Some r \<Rightarrow> PStr r)),
             (''source'', PStr ''qkd_simulation'')];
          S2 = S1\<lparr>quantum_keys_cache := (quantum_keys_cache S1)(key_id \<mapsto> key_metadata)\<rparr>;
          F2 = (if truthy recipient_email
                then store_key_metadata_in_firebase F key_id key_metadata else F)
      in (Inr key_metadata, S2, F2))"

text \<open>
  \<open>QKDService.get_quantum_key_by_id\<close>. The \<open>key_id\<close> comes from the envelope and can be
  any JSON value. Every exception of the body, its own "not found" included, is
  wrapped into \<open>QKDServiceError("Failed to get quantum key by ID: ...")\<close>.
\<close>

definition qkd_get_quantum_key_by_id ::
  "lib \<Rightarrow> qkd_service \<Rightarrow> firebase \<Rightarrow> pyval \<Rightarrow> (error + pydict) \<times> qkd_service" where
  "qkd_get_quantum_key_by_id L S F key_id =
     (let failed = (\<lambda>e. (Inl (QKDServiceError ''Failed to get quantum key by ID: '' (Some e)), S));
          not_found = failed (QKDServiceError ''Quantum key not found'' None)
      in case key_id of
           PStr kid \<Rightarrow>
             (case quantum_keys_cache S kid of
                Some cached \<Rightarrow> (Inr cached, S)
              | None \<Rightarrow>
                  (case get_key_metadata_from_firebase F kid of
                     None \<Rightarrow> not_found
                   | Some key_metadata \<Rightarrow>
                       if key_metadata = [] then not_found
                       else if \<not> qkd_client S then failed AttributeError
                       else
                         (case getitem key_metadata ''key_length_bytes'' of
                            Inl e \<Rightarrow> failed e
                          | Inr len \<Rightarrow>
                              (case as_int len of
                                 None \<Rightarrow> failed TypeError
                               | Some n \<Rightarrow>
                                   (let key_metadata' =
                                          setitem key_metadata ''key_hex''
                                            (PStr (bytes_hex L (get_deterministic_key L kid n)))
                                    in (Inr key_metadata',
                                        S\<lparr>quantum_keys_cache :=
                                             (quantum_keys_cache S)(kid \<mapsto> key_metadata')\<rparr>))))))
         | PList xs \<Rightarrow> failed TypeError
         | PDict d \<Rightarrow> failed TypeError
         | _ \<Rightarrow> not_found)"

section \<open>crypto\_services.py: CryptoService\<close>

text \<open>
  The random draws of one \<open>encrypt\<close> call, in the order of the \<open>os.urandom\<close> calls that
  can occur: the AES key (32 bytes), the nonce (12), the salt (16), the bytes behind a
  new quantum key id (16), and the coins of the KEM encapsulation.
\<close>

record entropy =
  rnd_aes_key :: bytes
  rnd_nonce :: bytes
  rnd_salt :: bytes
  rnd_key_id :: bytes
  rnd_kem :: bytes

text \<open>The keyword arguments: \<open>None\<close> is an argument that was not passed.\<close>

record encrypt_kwargs =
  kw_security_level :: "int option"
  kw_encryption_method :: "string option"
  kw_recipient_email :: "string option"
  kw_key_hex :: "string option"
  kw_key_id :: "string option"
  kw_recipient_public_key_b64 :: "string option"

record decrypt_kwargs =
  dkw_private_key_b64 :: "string option"
  dkw_key_hex :: "string option"

text \<open>\<open>CryptoService.get_quantum_key\<close> and \<open>CryptoService.get_quantum_key_by_id\<close>\<close>

definition crypto_get_quantum_key ::
  "lib \<Rightarrow> bytes \<Rightarrow> pyval \<Rightarrow> qkd_service \<Rightarrow> firebase \<Rightarrow> int \<Rightarrow> string option
     \<Rightarrow> (error + pydict) \<times> qkd_service \<times> firebase" where
  "crypto_get_quantum_key L rnd now S F key_length_bytes recipient_email =
     (if \<not> qkd_client S
      then (Inl (EncryptionError ''QKD service not available or not initialized'' None), S, F)
      else (case qkd_get_quantum_key L rnd now S F key_length_bytes recipient_email of
              (Inl e, S', F') \<Rightarrow> (Inl (EncryptionError ''Failed to get quantum key: '' (Some e)), S', F')
            | (Inr key_metadata, S', F') \<Rightarrow> (Inr key_metadata, S', F')))"

definition crypto_get_quantum_key_by_id ::
  "lib \<Rightarrow> qkd_service \<Rightarrow> firebase \<Rightarrow> pyval \<Rightarrow> (error + pydict) \<times> qkd_service" where
  "crypto_get_quantum_key_by_id L S F key_id =
     (if \<not> qkd_client S
      then (Inl (EncryptionError ''QKD service not available or not initialized'' None), S)
      else (case qkd_get_quantum_key_by_id L S F key_id of
              (Inl e, S') \<Rightarrow> (Inl (EncryptionError ''Failed to get quantum key by ID: '' (Some e)), S')
            | (Inr key_metadata, S') \<Rightarrow> (Inr key_metadata, S')))"

text \<open>
  \<open>_derive_aes_key_from_quantum\<close>: PBKDF2-HMAC-SHA256, 32 bytes, 100000 iterations.
  \<open>fresh\<close> is the \<open>os.urandom(16)\<close> drawn when no salt is passed.
\<close>

definition derive_aes_key_from_quantum ::
  "lib \<Rightarrow> bytes \<Rightarrow> pyval \<Rightarrow> bytes option \<Rightarrow> error + bytes" where
  "derive_aes_key_from_quantum L fresh quantum_key_hex salt =
     (let salt' = (case salt of None \<Rightarrow> fresh | Some s \<Rightarrow> s)
      in case fromhex_val L quantum_key_hex of
           Inl e \<Rightarrow> Inl e
         | Inr quantum_key_bytes \<Rightarrow> Inr (pbkdf2_hmac L 32 100000 salt' quantum_key_bytes))"

text \<open>The dict that \<open>encrypt\<close> serialises first: the body and the attachments.\<close>

definition payload_dict :: "lib \<Rightarrow> string \<Rightarrow> (string \<times> bytes) list \<Rightarrow> pyval" where
  "payload_dict L body attachments =
     PDict [(''body'', PStr body),
            (''attachments'',
             PList (map (\<lambda>(filename, content).
                           PDict [(''filename'', PStr filename),
                                  (''content_b64'', PStr (b64encode L content))])
                        attachments))]"

definition plaintext_payload_bytes :: "lib \<Rightarrow> string \<Rightarrow> (string \<times> bytes) list \<Rightarrow> bytes" where
  "plaintext_payload_bytes L body attachments =
     utf8_encode L (json_dumps L (payload_dict L body attachments))"

text \<open>
  The branches of \<open>encrypt\<close>. Each gives the dict that the branch passes to
  \<open>json.dumps\<close> at its \<open>return\<close>.
\<close>

definition encrypt_level3 :: "lib \<Rightarrow> entropy \<Rightarrow> bytes \<Rightarrow> encrypt_kwargs \<Rightarrow> error + pydict" where
  "encrypt_level3 L R payload_bytes kw =
     (let aes_key = rnd_aes_key R; nonce = rnd_nonce R
      in case aes_gcm_encrypt L aes_key nonce payload_bytes of
           Inl e \<Rightarrow> Inl e
         | Inr (aes_ciphertext, tag) \<Rightarrow>
             (case kw_recipient_public_key_b64 kw of
                None \<Rightarrow> Inl (KeyError ''recipient_public_key_b64'')
              | Some recipient_public_key_b64 \<Rightarrow>
                  (case b64decode L recipient_public_key_b64 of
                     None \<Rightarrow> Inl Base64Error
                   | Some public_key \<Rightarrow>
                       (case kem_encrypt_512 L (rnd_kem R) public_key of
                          Inl e \<Rightarrow> Inl e
                        | Inr (kem_ciphertext, shared_secret) \<Rightarrow>
                            (let encrypted_symmetric_key =
                                   xor_zip (ljust aes_key (length shared_secret)) shared_secret
                             in Inr [(''qumail_version'', PStr ''4.0''),
                                     (''security_level'', PInt 3),
                                     (''kem_ciphertext_b64'', PStr (b64encode L kem_ciphertext)),
                                     (''encrypted_symmetric_key_b64'',
                                      PStr (b64encode L encrypted_symmetric_key)),
                                     (''aes_payload'',
                                      PDict [(''nonce_b64'', PStr (b64encode L nonce)),
                                             (''auth_tag_b64'', PStr (b64encode L tag)),
                                             (''ciphertext_b64'',
                                              PStr (b64encode L aes_ciphertext))])])))))"

definition encrypt_qkd ::
  "lib \<Rightarrow> entropy \<Rightarrow> pyval \<Rightarrow> qkd_service \<Rightarrow> firebase \<Rightarrow> int \<Rightarrow> bytes \<Rightarrow> encrypt_kwargs
     \<Rightarrow> (error + pydict) \<times> qkd_service \<times> firebase" where
  "encrypt_qkd L R now S F security_level payload_bytes kw =
     (let recipient_email = kw_recipient_email kw
      in if \<not> truthy recipient_email
         then (Inl (EncryptionError ''Recipient email required for QKD encryption'' None), S, F)
         else
           (case crypto_get_quantum_key L (rnd_key_id R) now S F
                   (int (length payload_bytes)) recipient_email of
              (Inl e, S', F') \<Rightarrow> (Inl e, S', F')
            | (Inr quantum_key_data, S', F') \<Rightarrow>
                (let result =
                   (case getitem quantum_key_data ''key_id'' of
                      Inl e \<Rightarrow> Inl e
                    | Inr key_id \<Rightarrow>
                   (case getitem quantum_key_data ''key_hex'' of
                      Inl e \<Rightarrow> Inl e
                    | Inr quantum_key_hex \<Rightarrow>
                   (case fromhex_val L quantum_key_hex of
                      Inl e \<Rightarrow> Inl e
                    | Inr quantum_key \<Rightarrow>
                   (case (if security_level = 2 then
                            (let salt = rnd_salt R
                             in case derive_aes_key_from_quantum L (rnd_salt R)
                                       quantum_key_hex (Some salt) of
                                  Inl e \<Rightarrow> Inl e
                                | Inr aes_key \<Rightarrow>
                                    (let nonce = rnd_nonce R
                                     in case aes_gcm_encrypt L aes_key nonce payload_bytes of
                                          Inl e \<Rightarrow> Inl e
                                        | Inr (aes_ciphertext, tag) \<Rightarrow>
                                            Inr [(''ciphertext_b64'', PStr (b64encode L aes_ciphertext)),
                                                 (''nonce_b64'', PStr (b64encode L nonce)),
                                                 (''auth_tag_b64'', PStr (b64encode L tag)),
                                                 (''salt_b64'', PStr (b64encode L salt))]))
                          else if security_level = 1 then
                            (if length quantum_key < length payload_bytes
                             then Inl (EncryptionError ''Quantum OTP key is shorter than payload.'' None)
                             else (let xor_ciphertext = xor_zip payload_bytes quantum_key
                                   in Inr [(''ciphertext_b64'', PStr (b64encode L xor_ciphertext))]))
                          else Inr []) of
                      Inl e \<Rightarrow> Inl e
                    | Inr encrypted_payload \<Rightarrow>
                        Inr [(''qumail_version'', PStr ''4.0''),
                             (''security_level'', PInt security_level),
                             (''encryption_method'', PStr ''qkd''),
                             (''key_id'', key_id),
                             (''payload'', PDict encrypted_payload)]))))
                 in (result, S', F'))))"

definition encrypt_pqc :: "lib \<Rightarrow> entropy \<Rightarrow> int \<Rightarrow> bytes \<Rightarrow> encrypt_kwargs \<Rightarrow> error + pydict" where
  "encrypt_pqc L R security_level payload_bytes kw =
     (case kw_key_hex kw of
        None \<Rightarrow> Inl (KeyError ''key_hex'')
      | Some key_hex \<Rightarrow>
     (case kw_key_id kw of
        None \<Rightarrow> Inl (KeyError ''key_id'')
      | Some key_id \<Rightarrow>
     (case bytes_fromhex L key_hex of
        None \<Rightarrow> Inl ValueError
      | Some key \<Rightarrow>
     (case (if security_level = 2 then
              (let aes_key = take 32 key; nonce = rnd_nonce R
               in case aes_gcm_encrypt L aes_key nonce payload_bytes of
                    Inl e \<Rightarrow> Inl e
                  | Inr (aes_ciphertext, tag) \<Rightarrow>
                      Inr [(''ciphertext_b64'', PStr (b64encode L aes_ciphertext)),
                           (''nonce_b64'', PStr (b64encode L nonce)),
                           (''auth_tag_b64'', PStr (b64encode L tag))])
            else if security_level = 1 then
              (if length key < length payload_bytes
               then Inl (EncryptionError ''OTP key is shorter than payload.'' None)
               else (let xor_ciphertext = xor_zip payload_bytes key
                     in Inr [(''ciphertext_b64'', PStr (b64encode L xor_ciphertext))]))
            else Inr []) of
        Inl e \<Rightarrow> Inl e
      | Inr encrypted_payload \<Rightarrow>
          Inr [(''qumail_version'', PStr ''4.0''),
               (''security_level'', PInt security_level),
               (''encryption_method'', PStr ''pqc''),
               (''key_id'', PStr key_id),
               (''payload'', PDict encrypted_payload)]))))"

text \<open>
  \<open>CryptoService.encrypt\<close> up to the final \<open>json.dumps\<close>: the envelope dict, or
  \<open>None\<close> when the function falls through (a level outside 1 to 4).
\<close>

definition encrypt_envelope ::
  "lib \<Rightarrow> entropy \<Rightarrow> pyval \<Rightarrow> qkd_service \<Rightarrow> firebase \<Rightarrow> bytes \<Rightarrow> (string \<times> bytes) list
     \<Rightarrow> encrypt_kwargs \<Rightarrow> (error + pydict option) \<times> qkd_service \<times> firebase" where
  "encrypt_envelope L R now S F main_body_bytes attachments kw =
     (let security_level = kw_security_level kw
      in case utf8_decode L main_body_bytes of
           None \<Rightarrow> (Inl UnicodeDecodeError, S, F)
         | Some body \<Rightarrow>
             if security_level = Some 4
             then (Inr (Some [(''qumail_version'', PStr ''4.0''), (''security_level'', PInt 4),
                              (''plaintext_payload'', payload_dict L body attachments)]), S, F)
             else
               (let payload_bytes = plaintext_payload_bytes L body attachments
                in if security_level = Some 3
                   then (map_sum id Some (encrypt_level3 L R payload_bytes kw), S, F)
                   else
                     (case security_level of
                        None \<Rightarrow> (Inr None, S, F)
                      | Some level \<Rightarrow>
                          if level = 1 \<or> level = 2
                          then (let encryption_method =
                                      (case kw_encryption_method kw of None \<Rightarrow> ''pqc'' | Some m \<Rightarrow> m)
                                in if encryption_method = ''qkd''
                                   then (case encrypt_qkd L R now S F level payload_bytes kw of
                                           (r, S', F') \<Rightarrow> (map_sum id Some r, S', F'))
                                   else (map_sum id Some (encrypt_pqc L R level payload_bytes kw), S, F))
                          else (Inr None, S, F))))"

definition encrypt ::
  "lib \<Rightarrow> entropy \<Rightarrow> pyval \<Rightarrow> qkd_service \<Rightarrow> firebase \<Rightarrow> bytes \<Rightarrow> (string \<times> bytes) list
     \<Rightarrow> encrypt_kwargs \<Rightarrow> (error + string option) \<times> qkd_service \<times> firebase" where
  "encrypt L R now S F main_body_bytes attachments kw =
     (case encrypt_envelope L R now S F main_body_bytes attachments kw of
        (r, S', F') \<Rightarrow> (map_sum id (map_option (\<lambda>envelope. json_dumps L (PDict envelope))) r, S', F'))"

text \<open>
  The \<open>try\<close> block around AES-GCM decryption, the same in the three branches that use
  it: \<open>InvalidTag\<close> becomes a \<open>DecryptionError\<close>, any other exception passes.
\<close>

definition aes_gcm_open :: "lib \<Rightarrow> bytes \<Rightarrow> bytes \<Rightarrow> bytes \<Rightarrow> bytes \<Rightarrow> error + bytes" where
  "aes_gcm_open L aes_key nonce tag aes_ciphertext =
     (case aes_gcm_decrypt L aes_key nonce tag aes_ciphertext of
        Inl InvalidTag \<Rightarrow>
          Inl (DecryptionError ''AES-GCM tag verification failed. Message may be tampered with.'' None)
      | Inl e \<Rightarrow> Inl e
      | Inr plaintext \<Rightarrow> Inr plaintext)"

text \<open>
  \<open>for att in payload.get('attachments', []): att['content'] = b64decode(att['content_b64'])\<close>,
  first on one item of the loop, then on the list, then on the payload. Iterating a
  string or a dict yields strings, which cannot be indexed by \<open>'content_b64'\<close>; the
  attachment dicts of a list are updated in place.
\<close>

definition decode_attachment :: "lib \<Rightarrow> pyval \<Rightarrow> error + pyval" where
  "decode_attachment L att =
     (case att of
        PDict d \<Rightarrow>
          (case getitem d ''content_b64'' of
             Inl e \<Rightarrow> Inl e
           | Inr x \<Rightarrow>
               (case b64decode_val L x of
                  Inl e \<Rightarrow> Inl e
                | Inr content \<Rightarrow> Inr (PDict (setitem d ''content'' (PBytes content)))))
      | _ \<Rightarrow> Inl TypeError)"

fun decode_attachments :: "lib \<Rightarrow> pyval list \<Rightarrow> error + pyval list" where
  "decode_attachments L [] = Inr []"
| "decode_attachments L (att # atts) =
     (case decode_attachment L att of
        Inl e \<Rightarrow> Inl e
      | Inr att' \<Rightarrow>
          (case decode_attachments L atts of
             Inl e \<Rightarrow> Inl e
           | Inr atts' \<Rightarrow> Inr (att' # atts')))"

definition decode_payload_attachments :: "lib \<Rightarrow> pyval \<Rightarrow> error + pyval" where
  "decode_payload_attachments L payload =
     (case payload of
        PDict d \<Rightarrow>
          (case map_of d ''attachments'' of
             None \<Rightarrow> Inr payload
           | Some (PList atts) \<Rightarrow>
               (case decode_attachments L atts of
                  Inl e \<Rightarrow> Inl e
                | Inr atts' \<Rightarrow> Inr (PDict (setitem d ''attachments'' (PList atts'))))
           | Some (PDict items) \<Rightarrow> (if items = [] then Inr payload else Inl TypeError)
           | Some (PStr s) \<Rightarrow> (if s = [] then Inr payload else Inl TypeError)
           | Some (PBytes b) \<Rightarrow> (if b = [] then Inr payload else Inl TypeError)
           | Some _ \<Rightarrow> Inl TypeError)
      | _ \<Rightarrow> Inl AttributeError)"

text \<open>
  The branches of \<open>decrypt\<close>, each giving \<open>decrypted_payload_bytes\<close>. \<open>data\<close> is the
  parsed envelope, a dict once \<open>data['security_level']\<close> has been read.
\<close>

definition decrypt_level3 :: "lib \<Rightarrow> pydict \<Rightarrow> decrypt_kwargs \<Rightarrow> error + bytes" where
  "decrypt_level3 L data kw =
     (case getitem data ''aes_payload'' of
        Inl e \<Rightarrow> Inl e
      | Inr aes_payload \<Rightarrow>
          (case (if truthy (dkw_private_key_b64 kw) then
                   (case b64_field L (PDict data) ''kem_ciphertext_b64'' of
                      Inl e \<Rightarrow> Inl e
                    | Inr kem_ciphertext \<Rightarrow>
                   (case b64_field L (PDict data) ''encrypted_symmetric_key_b64'' of
                      Inl e \<Rightarrow> Inl e
                    | Inr encrypted_symmetric_key \<Rightarrow>
                   (case b64decode L (case dkw_private_key_b64 kw of None \<Rightarrow> [] | Some s \<Rightarrow> s) of
                      None \<Rightarrow> Inl Base64Error
                    | Some private_key \<Rightarrow>
                   (case kem_decrypt_512 L kem_ciphertext private_key of
                      Inl e \<Rightarrow> Inl e
                    | Inr shared_secret \<Rightarrow> Inr (xor_zip encrypted_symmetric_key shared_secret)))))
                 else Inl (DecryptionError ''Missing private key for local decapsulation.'' None)) of
             Inl e \<Rightarrow> Inl e
           | Inr aes_key \<Rightarrow>
          (case b64_field L aes_payload ''ciphertext_b64'' of
             Inl e \<Rightarrow> Inl e
           | Inr aes_ciphertext \<Rightarrow>
          (case b64_field L aes_payload ''nonce_b64'' of
             Inl e \<Rightarrow> Inl e
           | Inr nonce \<Rightarrow>
          (case b64_field L aes_payload ''auth_tag_b64'' of
             Inl e \<Rightarrow> Inl e
           | Inr tag \<Rightarrow> aes_gcm_open L aes_key nonce tag aes_ciphertext)))))"

definition decrypt_qkd ::
  "lib \<Rightarrow> qkd_service \<Rightarrow> firebase \<Rightarrow> pyval \<Rightarrow> pydict \<Rightarrow> (error + bytes) \<times> qkd_service" where
  "decrypt_qkd L S F security_level data =
     (case getitem data ''key_id'' of
        Inl e \<Rightarrow> (Inl e, S)
      | Inr key_id \<Rightarrow>
          (case crypto_get_quantum_key_by_id L S F key_id of
             (Inl e, S') \<Rightarrow> (Inl e, S')
           | (Inr quantum_key_data, S') \<Rightarrow>
               (let result =
                  (case getitem quantum_key_data ''key_hex'' of
                     Inl e \<Rightarrow> Inl e
                   | Inr quantum_key_hex \<Rightarrow>
                  (case fromhex_val L quantum_key_hex of
                     Inl e \<Rightarrow> Inl e
                   | Inr quantum_key \<Rightarrow>
                  (case getitem data ''payload'' of
                     Inl e \<Rightarrow> Inl e
                   | Inr payload \<Rightarrow>
                       if eq_int security_level 2 then
                         (case b64_field L payload ''salt_b64'' of
                            Inl e \<Rightarrow> Inl e
                          | Inr salt \<Rightarrow>
                         (case derive_aes_key_from_quantum L [] quantum_key_hex (Some salt) of
                            Inl e \<Rightarrow> Inl e
                          | Inr aes_key \<Rightarrow>
                         (case b64_field L payload ''ciphertext_b64'' of
                            Inl e \<Rightarrow> Inl e
                          | Inr aes_ciphertext \<Rightarrow>
                         (case b64_field L payload ''nonce_b64'' of
                            Inl e \<Rightarrow> Inl e
                          | Inr nonce \<Rightarrow>
                         (case b64_field L payload ''auth_tag_b64'' of
                            Inl e \<Rightarrow> Inl e
                          | Inr tag \<Rightarrow> aes_gcm_open L aes_key nonce tag aes_ciphertext)))))
                       else if eq_int security_level 1 then
                         (case b64_field L payload ''ciphertext_b64'' of
                            Inl e \<Rightarrow> Inl e
                          | Inr xor_ciphertext \<Rightarrow>
                              if length quantum_key < length xor_ciphertext
                              then Inl (DecryptionError ''Quantum OTP key is shorter than ciphertext.'' None)
                              else Inr (xor_zip xor_ciphertext quantum_key))
                       else Inr [])))
                in (result, S'))))"

definition decrypt_pqc :: "lib \<Rightarrow> pyval \<Rightarrow> pydict \<Rightarrow> decrypt_kwargs \<Rightarrow> error + bytes" where
  "decrypt_pqc L security_level data kw =
     (case dkw_key_hex kw of
        None \<Rightarrow> Inl (KeyError ''key_hex'')
      | Some key_hex \<Rightarrow>
     (case bytes_fromhex L key_hex of
        None \<Rightarrow> Inl ValueError
      | Some key \<Rightarrow>
     (case getitem data ''payload'' of
        Inl e \<Rightarrow> Inl e
      | Inr payload \<Rightarrow>
          if eq_int security_level 2 then
            (let aes_key = take 32 key
             in case b64_field L payload ''ciphertext_b64'' of
                  Inl e \<Rightarrow> Inl e
                | Inr aes_ciphertext \<Rightarrow>
               (case b64_field L payload ''nonce_b64'' of
                  Inl e \<Rightarrow> Inl e
                | Inr nonce \<Rightarrow>
               (case b64_field L payload ''auth_tag_b64'' of
                  Inl e \<Rightarrow> Inl e
                | Inr tag \<Rightarrow> aes_gcm_open L aes_key nonce tag aes_ciphertext)))
          else if eq_int security_level 1 then
            (case b64_field L payload ''ciphertext_b64'' of
               Inl e \<Rightarrow> Inl e
             | Inr xor_ciphertext \<Rightarrow>
                 if length key < length xor_ciphertext
                 then Inl (DecryptionError ''OTP key is shorter than ciphertext.'' None)
                 else Inr (xor_zip xor_ciphertext key))
          else Inr [])))"

text \<open>
  \<open>CryptoService.decrypt\<close> on the parsed envelope, and \<open>decrypt\<close> itself, which parses
  the string first.
\<close>

definition decrypt_data ::
  "lib \<Rightarrow> qkd_service \<Rightarrow> firebase \<Rightarrow> pyval \<Rightarrow> decrypt_kwargs \<Rightarrow> (error + pyval) \<times> qkd_service" where
  "decrypt_data L S F data_value kw =
     (case data_value of
        PDict data \<Rightarrow>
          (case getitem data ''security_level'' of
             Inl e \<Rightarrow> (Inl e, S)
           | Inr security_level \<Rightarrow>
               if eq_int security_level 4
               then (let payload = (case map_of data ''plaintext_payload'' of
                                      None \<Rightarrow> PDict [] | Some p \<Rightarrow> p)
                     in (decode_payload_attachments L payload, S))
               else
                 (case (if eq_int security_level 3 then (decrypt_level3 L data kw, S)
                        else if eq_int security_level 1 \<or> eq_int security_level 2 then
                          (let encryption_method =
                                 (case map_of data ''encryption_method'' of
                                    None \<Rightarrow> PStr ''pqc'' | Some m \<Rightarrow> m)
                           in if encryption_method = PStr ''qkd''
                              then decrypt_qkd L S F security_level data
                              else (decrypt_pqc L security_level data kw, S))
                        else (Inr [], S)) of
                    (Inl e, S') \<Rightarrow> (Inl e, S')
                  | (Inr decrypted_payload_bytes, S') \<Rightarrow>
                      (case json_loads_bytes L decrypted_payload_bytes of
                         None \<Rightarrow> (Inl JSONDecodeError, S')
                       | Some decrypted_payload \<Rightarrow>
                           (decode_payload_attachments L decrypted_payload, S'))))
      | _ \<Rightarrow> (Inl TypeError, S))"

definition decrypt ::
  "lib \<Rightarrow> qkd_service \<Rightarrow> firebase \<Rightarrow> string \<Rightarrow> decrypt_kwargs \<Rightarrow> (error + pyval) \<times> qkd_service" where
  "decrypt L S F json_string kw =
     (case json_loads L json_string of
        None \<Rightarrow> (Inl JSONDecodeError, S)
      | Some data \<Rightarrow> decrypt_data L S F data kw)"

section \<open>email\_controller.py: acquiring the key for the pqc method\<close>

text \<open>
  The \<open>else\<close> branch of \<open>handle_send_email\<close> for levels 1 and 2: the size of the
  serialised payload is computed first, a key of that size (level 1) or of 32 bytes is
  requested from the key server, and \<open>encrypt\<close> is called with the key received.
\<close>

definition handle_send_email_pqc ::
  "lib \<Rightarrow> entropy \<Rightarrow> pyval \<Rightarrow> string \<Rightarrow> (nat \<Rightarrow> bytes) \<Rightarrow> symmetric_keys \<Rightarrow> qkd_service \<Rightarrow> firebase
     \<Rightarrow> string \<Rightarrow> (string \<times> bytes) list \<Rightarrow> int
     \<Rightarrow> (error + string option) \<times> symmetric_keys" where
  "handle_send_email_pqc L R now uuid token_bytes db S F body attachments security_level =
     (let payload_size = int (length (utf8_encode L (json_dumps L (payload_dict L body attachments))));
          key_length = (if security_level = 1 then payload_size else 32)
      in case crypto_get_symmetric_key L uuid token_bytes db key_length of
           (Inl e, db') \<Rightarrow> (Inl e, db')
         | (Inr (key_id, key_hex), db') \<Rightarrow>
             (fst (encrypt L R now S F (utf8_encode L body) attachments
                     \<lparr>kw_security_level = Some security_level,
                      kw_encryption_method = Some ''pqc'',
                      kw_recipient_email = None,
                      kw_key_hex = Some key_hex,
                      kw_key_id = Some key_id,
                      kw_recipient_public_key_b64 = None\<rparr>), db'))"

section \<open>What is assumed of the libraries, and the terms of the claims\<close>

text \<open>
  Base64, hex and UTF-8 decoding undo the encoding; AES-GCM decryption with the key,
  nonce and tag of an encryption returns the plaintext; a Kyber-512 decapsulation with
  the private key of the pair returns the 32-byte shared secret of the encapsulation.
\<close>

definition codecs_ok :: "lib \<Rightarrow> bool" where
  "codecs_ok L \<longleftrightarrow>
     (\<forall>b. b64decode L (b64encode L b) = Some b) \<and>
     (\<forall>b. bytes_fromhex L (bytes_hex L b) = Some b) \<and>
     (\<forall>s. utf8_decode L (utf8_encode L s) = Some s)"

definition aead_ok :: "lib \<Rightarrow> bool" where
  "aead_ok L \<longleftrightarrow>
     (\<forall>key nonce plaintext ciphertext tag.
        aes_gcm_encrypt L key nonce plaintext = Inr (ciphertext, tag) \<longrightarrow>
        aes_gcm_decrypt L key nonce tag ciphertext = Inr plaintext)"

definition kem_ok :: "lib \<Rightarrow> bool" where
  "kem_ok L \<longleftrightarrow>
     (\<forall>coins coins' private_key public_key kem_ciphertext shared_secret.
        kem_keypair_512 L coins = (private_key, public_key) \<and>
        kem_encrypt_512 L coins' public_key = Inr (kem_ciphertext, shared_secret) \<longrightarrow>
        kem_decrypt_512 L kem_ciphertext private_key = Inr shared_secret \<and>
        length shared_secret = 32)"

text \<open>\<open>json.loads(json.dumps(v)) == v\<close>, from the string and from its UTF-8 bytes.\<close>

definition json_roundtrip :: "lib \<Rightarrow> pyval \<Rightarrow> bool" where
  "json_roundtrip L v \<longleftrightarrow>
     json_loads L (json_dumps L v) = Some v \<and>
     json_loads_bytes L (utf8_encode L (json_dumps L v)) = Some v"

text \<open>
  One bit of a byte string flipped, and an AES-GCM that notices it: decryption of the
  result of an encryption with one bit of the ciphertext or of the tag flipped raises
  \<open>InvalidTag\<close>.
\<close>

definition flip_bit_at :: "bytes \<Rightarrow> nat \<Rightarrow> bytes" where
  "flip_bit_at bs i = bs[i div 8 := (bs ! (i div 8)) XOR push_bit (i mod 8) 1]"

definition aead_detects_bit_flips :: "lib \<Rightarrow> bool" where
  "aead_detects_bit_flips L \<longleftrightarrow>
     (\<forall>key nonce plaintext ciphertext tag i.
        aes_gcm_encrypt L key nonce plaintext = Inr (ciphertext, tag) \<longrightarrow>
        (i < 8 * length ciphertext \<longrightarrow>
           aes_gcm_decrypt L key nonce tag (flip_bit_at ciphertext i) = Inl InvalidTag) \<and>
        (i < 8 * length tag \<longrightarrow>
           aes_gcm_decrypt L key nonce (flip_bit_at tag i) ciphertext = Inl InvalidTag))"

text \<open>
  The payload as \<open>decrypt\<close> returns it: the dict that was serialised, each attachment
  with its decoded \<open>content\<close> added.
\<close>

definition returned_payload :: "lib \<Rightarrow> string \<Rightarrow> (string \<times> bytes) list \<Rightarrow> pyval" where
  "returned_payload L body attachments =
     PDict [(''body'', PStr body),
            (''attachments'',
             PList (map (\<lambda>(filename, content).
                           PDict [(''filename'', PStr filename),
                                  (''content_b64'', PStr (b64encode L content)),
                                  (''content'', PBytes content)])
                        attachments))]"

text \<open>
  The random draws have the lengths that were asked of \<open>os.urandom\<close>.
\<close>

definition entropy_ok :: "entropy \<Rightarrow> bool" where
  "entropy_ok R \<longleftrightarrow>
     length (rnd_aes_key R) = 32 \<and> length (rnd_nonce R) = 12 \<and>
     length (rnd_salt R) = 16 \<and> length (rnd_key_id R) = 16"

text \<open>
  The key material that \<open>decrypt\<close> is given or can reach matches the encryption:
  at level 3 the private key of the pair whose public key was used (\<open>coins\<close> are the
  coins of the key generation), both as base64 text; for the pqc method the same
  \<open>key_hex\<close>; for the qkd method a connected service that either has the sender's cache
  entry, or has none and reads from Firebase the record the sender published
  (\<open>F\<close> and \<open>F1\<close> are the store before and after the encryption, \<open>S1\<close> the sender's
  service after it).
\<close>

definition keys_match ::
  "lib \<Rightarrow> entropy \<Rightarrow> bytes \<Rightarrow> encrypt_kwargs \<Rightarrow> decrypt_kwargs \<Rightarrow> firebase \<Rightarrow> qkd_service \<Rightarrow> firebase
     \<Rightarrow> qkd_service \<Rightarrow> firebase \<Rightarrow> bool" where
  "keys_match L R coins kw kw' F S1 F1 S' F' \<longleftrightarrow>
     (if kw_security_level kw = Some 4 then True
      else if kw_security_level kw = Some 3 then
        (case (kw_recipient_public_key_b64 kw, dkw_private_key_b64 kw') of
           (Some public_key_b64, Some private_key_b64) \<Rightarrow>
             private_key_b64 \<noteq> [] \<and>
             b64decode L public_key_b64 = Some (snd (kem_keypair_512 L coins)) \<and>
             b64decode L private_key_b64 = Some (fst (kem_keypair_512 L coins))
         | _ \<Rightarrow> False)
      else if kw_encryption_method kw = Some ''qkd'' then
        (let key_id = ''qkd_'' @ bytes_hex L (rnd_key_id R)
         in qkd_client S' \<and>
            (quantum_keys_cache S' key_id = quantum_keys_cache S1 key_id \<or>
             quantum_keys_cache S' key_id = None \<and> fb_online F \<and> fb_online F' \<and>
             fb_nodes F' (safe_key_id key_id) = fb_nodes F1 (safe_key_id key_id)))
      else dkw_key_hex kw' = kw_key_hex kw)"



section \<open>A small library instance for concrete runs\<close>

text \<open>
  Stand-ins for the library functions, simple enough to evaluate. Text and bytes
  correspond character by character; hex is hex, and base64 is replaced by base16; the
  JSON writer follows \<open>json.dumps\<close> (separators \<open>", "\<close> and \<open>": "\<close>) on strings of plain
  characters, integers, lists and dicts, and the reader parses what the writer writes.
  The hash counts its input; the cipher XORs every byte with the XOR of the key bytes
  and its tag mixes the key with the XOR of the ciphertext bytes; the KEM's shared
  secret is the first 32 bytes of the padded key.
\<close>

definition demo_text :: "bytes \<Rightarrow> string" where
  "demo_text bs = map (\<lambda>b. char_of (unat b)) bs"

definition demo_bytes :: "string \<Rightarrow> bytes" where
  "demo_bytes s = map (\<lambda>c. of_nat (of_char c)) s"

definition hex_digit :: "nat \<Rightarrow> char" where
  "hex_digit n = (if n < 10 then char_of (48 + n) else char_of (87 + n))"

definition hex_value :: "char \<Rightarrow> nat option" where
  "hex_value c =
     (let n = (of_char c :: nat)
      in if 48 \<le> n \<and> n \<le> 57 then Some (n - 48)
         else if 97 \<le> n \<and> n \<le> 102 then Some (n - 87)
         else if 65 \<le> n \<and> n \<le> 70 then Some (n - 55)
         else None)"

definition demo_hex :: "bytes \<Rightarrow> string" where
  "demo_hex bs = concat (map (\<lambda>b. [hex_digit (unat b div 16), hex_digit (unat b mod 16)]) bs)"

fun demo_fromhex :: "string \<Rightarrow> bytes option" where
  "demo_fromhex [] = Some []"
| "demo_fromhex [c] = None"
| "demo_fromhex (c # d # cs) =
     (case (hex_value c, hex_value d, demo_fromhex cs) of
        (Some h, Some l, Some bs) \<Rightarrow> Some (of_nat (16 * h + l) # bs)
      | _ \<Rightarrow> None)"

function show_nat :: "nat \<Rightarrow> string" where
  "show_nat n =
     (if n < 10 then [char_of (48 + n)] else show_nat (n div 10) @ [char_of (48 + n mod 10)])"
  by pat_completeness auto
termination
  by (relation "measure id") auto

declare show_nat.simps [simp del]

definition show_int :: "int \<Rightarrow> string" where
  "show_int i = (if i < 0 then CHR ''-'' # show_nat (nat (- i)) else show_nat (nat i))"

definition json_escape :: "char \<Rightarrow> string" where
  "json_escape c = (if c = CHR 0x22 \<or> c = CHR 0x5C then [CHR 0x5C, c] else [c])"

definition json_quote :: "string \<Rightarrow> string" where
  "json_quote s = CHR 0x22 # concat (map json_escape s) @ [CHR 0x22]"

fun join :: "string list \<Rightarrow> string" where
  "join [] = []"
| "join [x] = x"
| "join (x # y # ys) = x @ '', '' @ join (y # ys)"

primrec demo_dumps :: "pyval \<Rightarrow> string" where
  "demo_dumps PNone = ''null''"
| "demo_dumps (PBool b) = (if b then ''true'' else ''false'')"
| "demo_dumps (PInt i) = show_int i"
| "demo_dumps (PStr s) = json_quote s"
| "demo_dumps (PBytes b) = ''null''"
| "demo_dumps (PList xs) = ''['' @ join (map demo_dumps xs) @ '']''"
| "demo_dumps (PDict kvs) =
     ''{'' @ join (map (\<lambda>(k, v). json_quote k @ '': '' @ v) (map (map_prod id demo_dumps) kvs)) @ ''}''"

fun skip_ws :: "string \<Rightarrow> string" where
  "skip_ws [] = []"
| "skip_ws (c # cs) = (if c = CHR '' '' then skip_ws cs else c # cs)"

fun parse_string :: "string \<Rightarrow> string \<Rightarrow> (string \<times> string) option" where
  "parse_string acc [] = None"
| "parse_string acc [c] = (if c = CHR 0x22 then Some (rev acc, []) else None)"
| "parse_string acc (c # d # cs) =
     (if c = CHR 0x22 then Some (rev acc, d # cs)
      else if c = CHR 0x5C then parse_string (d # acc) cs
      else parse_string (c # acc) (d # cs))"

definition is_digit :: "char \<Rightarrow> bool" where
  "is_digit c \<longleftrightarrow> 48 \<le> (of_char c :: nat) \<and> (of_char c :: nat) \<le> 57"

fun parse_digits :: "nat \<Rightarrow> string \<Rightarrow> nat \<times> string" where
  "parse_digits acc [] = (acc, [])"
| "parse_digits acc (c # cs) =
     (if is_digit c then parse_digits (10 * acc + (of_char c - 48)) cs else (acc, c # cs))"

fun parse_value :: "nat \<Rightarrow> string \<Rightarrow> (pyval \<times> string) option"
  and parse_elems :: "nat \<Rightarrow> pyval list \<Rightarrow> string \<Rightarrow> (pyval list \<times> string) option"
  and parse_members :: "nat \<Rightarrow> pydict \<Rightarrow> string \<Rightarrow> (pydict \<times> string) option"
where
  "parse_value 0 s = None"
| "parse_value (Suc fuel) s =
     (case skip_ws s of
        [] \<Rightarrow> None
      | c # cs \<Rightarrow>
          if c = CHR ''n'' then (if take 3 cs = ''ull'' then Some (PNone, drop 3 cs) else None)
          else if c = CHR ''t'' then (if take 3 cs = ''rue'' then Some (PBool True, drop 3 cs) else None)
          else if c = CHR ''f'' then (if take 4 cs = ''alse'' then Some (PBool False, drop 4 cs) else None)
          else if c = CHR 0x22 then map_option (\<lambda>(x, r). (PStr x, r)) (parse_string [] cs)
          else if c = CHR ''-'' then (case parse_digits 0 cs of (n, r) \<Rightarrow> Some (PInt (- int n), r))
          else if is_digit c then (case parse_digits 0 (c # cs) of (n, r) \<Rightarrow> Some (PInt (int n), r))
          else if c = CHR ''['' then
            (case skip_ws cs of
               [] \<Rightarrow> None
             | d # ds \<Rightarrow>
                 if d = CHR '']'' then Some (PList [], ds)
                 else map_option (\<lambda>(xs, r). (PList xs, r)) (parse_elems fuel [] (d # ds)))
          else if c = CHR ''{'' then
            (case skip_ws cs of
               [] \<Rightarrow> None
             | d # ds \<Rightarrow>
                 if d = CHR ''}'' then Some (PDict [], ds)
                 else map_option (\<lambda>(kvs, r). (PDict kvs, r)) (parse_members fuel [] (d # ds)))
          else None)"
| "parse_elems 0 acc s = None"
| "parse_elems (Suc fuel) acc s =
     (case parse_value fuel s of
        None \<Rightarrow> None
      | Some (v, r) \<Rightarrow>
          (case skip_ws r of
             [] \<Rightarrow> None
           | c # cs \<Rightarrow>
               if c = CHR '','' then parse_elems fuel (v # acc) cs
               else if c = CHR '']'' then Some (rev (v # acc), cs)
               else None))"
| "parse_members 0 acc s = None"
| "parse_members (Suc fuel) acc s =
     (case skip_ws s of
        [] \<Rightarrow> None
      | q # qs \<Rightarrow>
          if q \<noteq> CHR 0x22 then None
          else
            (case parse_string [] qs of
               None \<Rightarrow> None
             | Some (k, r) \<Rightarrow>
                 (case skip_ws r of
                    [] \<Rightarrow> None
                  | c # cs \<Rightarrow>
                      if c \<noteq> CHR '':'' then None
                      else
                        (case parse_value fuel cs of
                           None \<Rightarrow> None
                         | Some (v, r') \<Rightarrow>
                             (case skip_ws r' of
                                [] \<Rightarrow> None
                              | e # es \<Rightarrow>
                                  if e = CHR '','' then parse_members fuel ((k, v) # acc) es
                                  else if e = CHR ''}'' then Some (rev ((k, v) # acc), es)
                                  else None)))))"

definition demo_loads :: "string \<Rightarrow> pyval option" where
  "demo_loads s =
     (case parse_value (2 * length s + 2) s of
        None \<Rightarrow> None
      | Some (v, r) \<Rightarrow> if skip_ws r = [] then Some v else None)"

definition xor_all :: "bytes \<Rightarrow> byte" where
  "xor_all bs = foldr (XOR) bs 0"

definition demo_encipher :: "byte \<Rightarrow> bytes \<Rightarrow> bytes" where
  "demo_encipher k bs = map (\<lambda>b. b XOR k) bs"

definition demo_tag :: "bytes \<Rightarrow> bytes \<Rightarrow> bytes" where
  "demo_tag key ciphertext = demo_encipher (xor_all ciphertext) (take 16 (key @ replicate 16 0))"

definition demo_lib :: lib where
  "demo_lib = \<lparr>
     sha256 = (\<lambda>bs. of_nat (length bs) + 1),
     utf8_encode = demo_bytes,
     utf8_decode = (\<lambda>bs. Some (demo_text bs)),
     bytes_hex = demo_hex,
     bytes_fromhex = demo_fromhex,
     b64encode = demo_hex,
     b64decode = demo_fromhex,
     json_dumps = demo_dumps,
     json_loads = demo_loads,
     json_loads_bytes = (\<lambda>bs. demo_loads (demo_text bs)),
     pbkdf2_hmac = (\<lambda>len iterations salt secret. take len (salt @ secret @ replicate len 0)),
     aes_gcm_encrypt = (\<lambda>key nonce plaintext.
        Inr (demo_encipher (xor_all key) plaintext,
             demo_tag key (demo_encipher (xor_all key) plaintext))),
     aes_gcm_decrypt = (\<lambda>key nonce tag ciphertext.
        if tag = demo_tag key ciphertext then Inr (demo_encipher (xor_all key) ciphertext)
        else Inl InvalidTag),
     kem_keypair_512 = (\<lambda>coins. (coins, coins)),
     kem_encrypt_512 = (\<lambda>coins public_key. Inr (coins, take 32 (public_key @ replicate 32 0))),
     kem_decrypt_512 = (\<lambda>kem_ciphertext private_key. Inr (take 32 (private_key @ replicate 32 0)))
   \<rparr>"

text \<open>
  The key length a service has on record for a key id, and a concrete setting: a
  connected service with an empty cache, a reachable and empty Firebase store, and
  fixed random draws.
\<close>

definition requested_key_length :: "qkd_service \<Rightarrow> string \<Rightarrow> pyval option" where
  "requested_key_length S key_id =
     (case quantum_keys_cache S key_id of
        None \<Rightarrow> None
      | Some key_metadata \<Rightarrow> map_of key_metadata ''key_length_bytes'')"

definition demo_service :: qkd_service where
  "demo_service = \<lparr>qkd_client = True, quantum_keys_cache = Map.empty\<rparr>"

definition demo_firebase :: firebase where
  "demo_firebase = \<lparr>fb_online = True, fb_nodes = Map.empty\<rparr>"

definition demo_entropy :: entropy where
  "demo_entropy =
     \<lparr>rnd_aes_key = replicate 32 7, rnd_nonce = replicate 12 1, rnd_salt = replicate 16 2,
      rnd_key_id = replicate 16 0xAB, rnd_kem = replicate 32 9\<rparr>"

definition demo_kwargs :: "int \<Rightarrow> string \<Rightarrow> encrypt_kwargs" where
  "demo_kwargs level method =
     \<lparr>kw_security_level = Some level,
      kw_encryption_method = Some method,
      kw_recipient_email = Some ''bob@example.org'',
      kw_key_hex = Some (demo_hex (replicate 40 0x5A)),
      kw_key_id = Some ''k1'',
      kw_recipient_public_key_b64 = Some (demo_hex (replicate 32 4))\<rparr>"

definition demo_envelope_pqc1 :: pydict where
  "demo_envelope_pqc1 =
     [(''qumail_version'', PStr ''4.0''), (''security_level'', PInt 1),
      (''encryption_method'', PStr ''pqc''), (''key_id'', PStr ''k1''),
      (''payload'', PDict [(''ciphertext_b64'',
         PStr (demo_hex (xor_zip (plaintext_payload_bytes demo_lib ''hi'' [])
                                 (replicate 40 0x5A))))])]"


definition demo_envelope_level4 :: pydict where
  "demo_envelope_level4 =
     [(''qumail_version'', PStr ''4.0''), (''security_level'', PInt 4),
      (''plaintext_payload'',
       PDict [(''body'', PStr ''hi''),
              (''attachments'',
               PList [PDict [(''filename'', PStr ''a''), (''content_b64'', PStr ''01'')]])])]"

definition demo_envelope_level3 :: pydict where
  "demo_envelope_level3 =
     [(''qumail_version'', PStr ''4.0''), (''security_level'', PInt 3),
      (''kem_ciphertext_b64'',
       PStr ''0909090909090909090909090909090909090909090909090909090909090909''),
      (''encrypted_symmetric_key_b64'',
       PStr ''0303030303030303030303030303030303030303030303030303030303030303''),
      (''aes_payload'',
       PDict [(''nonce_b64'', PStr ''010101010101010101010101''),
              (''auth_tag_b64'', PStr ''70707070707070707070707070707070''),
              (''ciphertext_b64'',
               PStr ''7b22626f6479223a20226869222c20226174746163686d656e7473223a205b5d7d'')])]"

definition demo_envelope_qkd2 :: pydict where
  "demo_envelope_qkd2 =
     [(''qumail_version'', PStr ''4.0''), (''security_level'', PInt 2),
      (''encryption_method'', PStr ''qkd''),
      (''key_id'', PStr ''qkd_abababababababababababababababab''),
      (''payload'',
       PDict [(''ciphertext_b64'',
               PStr ''7b22626f6479223a20226869222c20226174746163686d656e7473223a205b5d7d''),
              (''nonce_b64'', PStr ''010101010101010101010101''),
              (''auth_tag_b64'', PStr ''75757575757575757575757575757575''),
              (''salt_b64'', PStr ''02020202020202020202020202020202'')])]"

definition demo_envelope_qkd1 :: pydict where
  "demo_envelope_qkd1 =
     [(''qumail_version'', PStr ''4.0''), (''security_level'', PInt 1),
      (''encryption_method'', PStr ''qkd''),
      (''key_id'', PStr ''qkd_abababababababababababababababab''),
      (''payload'',
       PDict [(''ciphertext_b64'',
               PStr ''7b22626f6479223a20226869222c20226174746163686d656e7473223a205b7c7d'')])]"

definition failing_lib :: lib where
  "failing_lib =
     demo_lib\<lparr>kem_decrypt_512 := (\<lambda>kem_ciphertext private_key. Inl KemError),
               aes_gcm_decrypt := (\<lambda>key nonce tag ciphertext. Inl ValueError)\<rparr>"

definition no_decrypt_kwargs :: decrypt_kwargs where
  "no_decrypt_kwargs = \<lparr>dkw_private_key_b64 = None, dkw_key_hex = None\<rparr>"

section \<open>Properties of the key derivation\<close>

lemma length_digest_bytes: "length (digest_bytes w) = 32"
  by (simp add: digest_bytes_def)

lemma length_sha256_digest: "length (sha256_digest L x) = 32"
  by (simp add: sha256_digest_def length_digest_bytes)

lemma length_concat_chain: "length (concat (chain_blocks L s k)) = 32 * k"
  by (induction k arbitrary: s) (simp_all add: length_sha256_digest)

text \<open>The number of blocks the loop still appends when \<open>key\<close> has \<open>len\<close> bytes.\<close>

definition blocks_left :: "int \<Rightarrow> nat \<Rightarrow> nat" where
  "blocks_left n len = nat ((n - int len + 31) div 32)"

lemma blocks_left_done: "\<not> int len < n \<Longrightarrow> blocks_left n len = 0"
  by (simp add: blocks_left_def)

lemma blocks_left_step: "int len < n \<Longrightarrow> blocks_left n len = Suc (blocks_left n (len + 32))"
  unfolding blocks_left_def by (simp add: nat_eq_iff) linarith

lemma expand_loop_chain:
  "expand_loop L seed key n = key @ concat (chain_blocks L seed (blocks_left n (length key)))"
proof (induction L seed key n rule: expand_loop.induct)
  case (1 L seed key n)
  show ?case
  proof (cases "int (length key) < n")
    case True
    from "1.IH"[OF True refl] True show ?thesis
      by (subst expand_loop.simps)
         (simp add: Let_def length_sha256_digest blocks_left_step[OF True])
  next
    case False
    then show ?thesis
      by (subst expand_loop.simps) (simp add: blocks_left_done)
  qed
qed

lemma chain_blocks_add:
  "\<exists>s'. chain_blocks L s (k + j) = chain_blocks L s k @ chain_blocks L s' j"
  by (induction k arbitrary: s) auto

lemma take_chain_mono:
  assumes "n \<le> 32 * k" and "k \<le> k'"
  shows "take n (concat (chain_blocks L s k')) = take n (concat (chain_blocks L s k))"
proof -
  obtain s' where
    "chain_blocks L s (k + (k' - k)) = chain_blocks L s k @ chain_blocks L s' (k' - k)"
    using chain_blocks_add by blast
  with assms show ?thesis
    by (simp add: length_concat_chain)
qed

lemma get_deterministic_key_nonneg:
  "0 \<le> n \<Longrightarrow> get_deterministic_key L kid n = hash_chain_spec L kid (nat n)"
  unfolding get_deterministic_key_def hash_chain_spec_def Let_def slice_to_def
  by (simp add: expand_loop_chain blocks_left_def nat_div_distrib nat_add_distrib)

lemma get_deterministic_key_neg:
  "n < 0 \<Longrightarrow> get_deterministic_key L kid n = []"
  unfolding get_deterministic_key_def Let_def slice_to_def
  by (subst expand_loop.simps) simp

lemma length_hash_chain_spec: "length (hash_chain_spec L kid n) = n"
  unfolding hash_chain_spec_def by (simp add: length_concat_chain)

lemma hash_chain_spec_prefix:
  assumes "m \<le> n"
  shows "prefix (hash_chain_spec L kid m) (hash_chain_spec L kid n)"
proof -
  let ?s = "sha256_digest L (utf8_encode L kid)"
  have "take m (concat (chain_blocks L ?s ((n + 31) div 32))) =
        take m (concat (chain_blocks L ?s ((m + 31) div 32)))"
    by (rule take_chain_mono) (use assms in auto)
  then have "hash_chain_spec L kid m = take m (hash_chain_spec L kid n)"
    unfolding hash_chain_spec_def using assms by (simp add: min_def)
  then show ?thesis
    by (metis take_is_prefix)
qed

lemma length_get_deterministic_key: "length (get_deterministic_key L kid n) = nat n"
  by (cases "0 \<le> n")
     (simp_all add: get_deterministic_key_nonneg get_deterministic_key_neg length_hash_chain_spec)

lemma get_deterministic_key_prefix:
  assumes "m \<le> n"
  shows "prefix (get_deterministic_key L kid m) (get_deterministic_key L kid n)"
proof (cases "0 \<le> m")
  case True
  with assms have "nat m \<le> nat n" and "0 \<le> n" by simp_all
  with True show ?thesis
    by (simp add: get_deterministic_key_nonneg hash_chain_spec_prefix)
next
  case False
  then show ?thesis
    by (simp add: get_deterministic_key_neg)
qed

text \<open>
  Claim C3. For every key identifier and every requested length, the derivation returns
  the hash chain of the specification: the seed is the SHA-256 digest of the identifier,
  every block is the digest of the one before, the blocks are concatenated and cut to
  the requested length. The result is a function of the identifier and the length alone
  (and of the hash): the derivation reads no state of the service or of the process.
\<close>

theorem C3_derivation_is_hash_chain:
  "get_deterministic_key L key_id n = hash_chain_spec L key_id (nat n)"
proof (cases "0 \<le> n")
  case True
  then show ?thesis
    by (rule get_deterministic_key_nonneg)
next
  case False
  then have "get_deterministic_key L key_id n = []"
    by (simp add: get_deterministic_key_neg)
  moreover from False have "hash_chain_spec L key_id (nat n) = []"
    by (simp add: hash_chain_spec_def)
  ultimately show ?thesis
    by simp
qed

text \<open>
  Claim C9. For lengths \<open>m \<le> n\<close> the key derived for \<open>m\<close> is a prefix of the key derived
  for \<open>n\<close> under the same identifier, and the derived key has exactly the requested
  length; for the length 0 it is the empty byte string.
\<close>

theorem C9_prefix_and_length:
  "m \<le> n \<Longrightarrow>
     prefix (get_deterministic_key L key_id m) (get_deterministic_key L key_id n)
     \<and> length (get_deterministic_key L key_id n) = nat n
     \<and> length (get_deterministic_key L key_id m) = nat m
     \<and> get_deterministic_key L key_id 0 = []"
proof -
  assume mn: "m \<le> n"
  have "get_deterministic_key L key_id 0 = []"
    using length_get_deterministic_key [of L key_id 0] by simp
  with mn show ?thesis
    by (simp add: get_deterministic_key_prefix length_get_deterministic_key)
qed

theorem C9_prefix_and_length_witness:
  "(33::int) \<le> 70
   \<and> prefix (get_deterministic_key demo_lib ''qkd_00'' 33) (get_deterministic_key demo_lib ''qkd_00'' 70)
   \<and> length (get_deterministic_key demo_lib ''qkd_00'' 70) = 70
   \<and> length (get_deterministic_key demo_lib ''qkd_00'' 33) = 33
   \<and> get_deterministic_key demo_lib ''qkd_00'' 0 = []"
  using C9_prefix_and_length [of 33 70 demo_lib "''qkd_00''"] by simp

section \<open>Properties of the key server\<close>

lemma serve_keeps_absent:
  "db k = None \<Longrightarrow> k \<notin> minted r \<Longrightarrow> serve L db r k = None"
  by (cases r)
     (auto simp: get_symmetric_key_def get_symmetric_key_by_id_def Let_def split: option.splits)

lemma foldl_serve_keeps_absent:
  "db k = None \<Longrightarrow> \<forall>r \<in> set rs. k \<notin> minted r \<Longrightarrow> foldl (serve L) db rs k = None"
  by (induction rs arbitrary: db) (simp_all add: serve_keeps_absent)

text \<open>
  Claim C5. For a stored single-use key, the first retrieval by its \<open>key_id\<close> returns
  the key and deletes the row; a second retrieval fails with status 404, and so does a
  retrieval after any further requests to the server, as long as none of them mints
  the same \<open>key_id\<close> again (a \<open>uuid4\<close> collision).
\<close>

theorem C5_single_use:
  assumes "db key_id = Some key_hex"
    and "\<forall>r \<in> set rs. key_id \<notin> minted r"
  shows "crypto_get_symmetric_key_by_id db key_id = (Inr key_hex, db(key_id := None))
     \<and> crypto_get_symmetric_key_by_id (db(key_id := None)) key_id
          = (Inl (HTTPStatusError 404), db(key_id := None))
     \<and> fst (crypto_get_symmetric_key_by_id (foldl (serve L) (db(key_id := None)) rs) key_id)
          = Inl (HTTPStatusError 404)"
proof -
  have first: "crypto_get_symmetric_key_by_id db key_id = (Inr key_hex, db(key_id := None))"
    using assms(1)
    by (simp add: crypto_get_symmetric_key_by_id_def get_symmetric_key_by_id_def)
  have gone: "crypto_get_symmetric_key_by_id d key_id = (Inl (HTTPStatusError 404), d)"
    if "d key_id = None" for d
    using that by (simp add: crypto_get_symmetric_key_by_id_def get_symmetric_key_by_id_def)
  have "foldl (serve L) (db(key_id := None)) rs key_id = None"
    using assms(2) by (simp add: foldl_serve_keeps_absent)
  then show ?thesis
    using first by (simp add: gone)
qed

theorem C5_single_use_witness:
  "[''k1'' \<mapsto> ''abcd''] ''k1'' = Some ''abcd''
   \<and> crypto_get_symmetric_key_by_id [''k1'' \<mapsto> ''abcd''] ''k1''
        = (Inr ''abcd'', [''k1'' \<mapsto> ''abcd''](''k1'' := None))
   \<and> crypto_get_symmetric_key_by_id ([''k1'' \<mapsto> ''abcd''](''k1'' := None)) ''k1''
        = (Inl (HTTPStatusError 404), [''k1'' \<mapsto> ''abcd''](''k1'' := None))
   \<and> fst (crypto_get_symmetric_key_by_id
            (foldl (serve demo_lib) ([''k1'' \<mapsto> ''abcd''](''k1'' := None))
               [GetSymmetricKey ''k2'' (\<lambda>n. replicate n 7) 4,
                GetSymmetricKeyById ''k1'', GetSymmetricKeyById ''k2'']) ''k1'')
        = Inl (HTTPStatusError 404)"
  using C5_single_use [where db = "[''k1'' \<mapsto> ''abcd'']" and key_id = "''k1''"
      and key_hex = "''abcd''"
      and rs = "[GetSymmetricKey ''k2'' (\<lambda>n. replicate n 7) 4,
                 GetSymmetricKeyById ''k1'', GetSymmetricKeyById ''k2'']"
      and L = demo_lib]
  by simp

section \<open>The library instance meets the assumptions\<close>

lemma hex_value_hex_digit: "n < 16 \<Longrightarrow> hex_value (hex_digit n) = Some n"
  by (auto simp: hex_value_def hex_digit_def Let_def)

lemma byte_nibbles: "(of_nat (16 * (unat b div 16) + unat b mod 16) :: byte) = b"
  by simp

lemma demo_fromhex_hex: "demo_fromhex (demo_hex bs) = Some bs"
proof (induction bs)
  case Nil
  then show ?case by (simp add: demo_hex_def)
next
  case (Cons b bs)
  have "unat b < 256" using unsigned_less[of b] by simp
  then have "unat b div 16 < 16" "unat b mod 16 < 16" by auto
  with Cons show ?case
    by (simp add: demo_hex_def hex_value_hex_digit del: of_nat_add of_nat_mult)
qed

lemma demo_text_bytes: "demo_text (demo_bytes s) = s"
proof -
  have "char_of (unat (of_nat (of_char c) :: byte)) = c" for c
  proof -
    have "(of_char c :: nat) < 256" by simp
    then have "unat (of_nat (of_char c) :: byte) = of_char c"
      by (simp add: unat_of_nat)
    then show ?thesis by simp
  qed
  then show ?thesis
    by (simp add: demo_text_def demo_bytes_def comp_def map_idI)
qed

lemma codecs_ok_demo: "codecs_ok demo_lib"
  by (simp add: codecs_ok_def demo_lib_def demo_fromhex_hex demo_text_bytes)

lemma demo_encipher_twice: "demo_encipher k (demo_encipher k bs) = bs"
  by (induction bs) (simp_all add: demo_encipher_def xor.assoc)

lemma length_demo_encipher: "length (demo_encipher k bs) = length bs"
  by (simp add: demo_encipher_def)

lemma aead_ok_demo: "aead_ok demo_lib"
  by (auto simp: aead_ok_def demo_lib_def demo_encipher_twice)

lemma kem_ok_demo: "kem_ok demo_lib"
  by (auto simp: kem_ok_def demo_lib_def)

lemma xor_all_update:
  "i < length bs \<Longrightarrow> xor_all (bs[i := bs ! i XOR m]) = xor_all bs XOR m"
proof (induction bs arbitrary: i)
  case Nil
  then show ?case by simp
next
  case (Cons b bs)
  show ?case
  proof (cases i)
    case 0
    then show ?thesis by (simp add: xor_all_def xor.assoc xor.left_commute xor.commute)
  next
    case (Suc j)
    with Cons.prems have "j < length bs" by simp
    from Cons.IH[OF this] Suc show ?thesis
      by (simp add: xor_all_def xor.assoc)
  qed
qed

lemma xor_changes: "m \<noteq> 0 \<Longrightarrow> (a :: byte) XOR m \<noteq> a"
proof
  assume "m \<noteq> 0" and "a XOR m = a"
  then have "a XOR (a XOR m) = a XOR a" by simp
  then have "m = 0" by (simp add: xor.assoc[symmetric])
  with \<open>m \<noteq> 0\<close> show False by simp
qed

lemma bit_mask_nonzero: "(push_bit (i mod 8) 1 :: byte) \<noteq> 0"
proof -
  have "i mod 8 < 8" by simp
  then show ?thesis
    by (simp add: push_bit_eq_mult)
qed

lemma flip_bit_at_length: "length (flip_bit_at bs i) = length bs"
  by (simp add: flip_bit_at_def)

lemma flip_bit_at_differs: "i < 8 * length bs \<Longrightarrow> flip_bit_at bs i \<noteq> bs"
proof -
  assume "i < 8 * length bs"
  then have lt: "i div 8 < length bs" by auto
  have "flip_bit_at bs i ! (i div 8) = bs ! (i div 8) XOR push_bit (i mod 8) 1"
    using lt by (simp add: flip_bit_at_def)
  moreover have "bs ! (i div 8) XOR push_bit (i mod 8) 1 \<noteq> bs ! (i div 8)"
    using bit_mask_nonzero[of i] by (rule xor_changes)
  ultimately show ?thesis by metis
qed

lemma xor_all_flip: "i < 8 * length bs \<Longrightarrow> xor_all (flip_bit_at bs i) = xor_all bs XOR push_bit (i mod 8) 1"
proof -
  assume "i < 8 * length bs"
  then have lt: "i div 8 < length bs" by auto
  then show ?thesis by (simp add: flip_bit_at_def xor_all_update)
qed

lemma demo_tag_flip: "i < 8 * length c \<Longrightarrow> demo_tag key (flip_bit_at c i) \<noteq> demo_tag key c"
proof -
  assume a: "i < 8 * length c"
  let ?ks = "take 16 (key @ replicate 16 0)"
  have ne: "?ks \<noteq> []" by auto
  then obtain k ks where ks: "?ks = k # ks" by (cases ?ks) auto
  have "k XOR (xor_all c XOR push_bit (i mod 8) 1) \<noteq> k XOR xor_all c"
    using xor_changes[OF bit_mask_nonzero[of i], of "k XOR xor_all c"] by (simp add: xor.assoc)
  then show ?thesis
    unfolding demo_tag_def ks by (simp add: xor_all_flip[OF a] demo_encipher_def xor.commute)
qed

lemma aead_detects_demo: "aead_detects_bit_flips demo_lib"
  unfolding aead_detects_bit_flips_def demo_lib_def
  by (auto simp: demo_tag_flip flip_bit_at_differs length_demo_encipher dest: sym)

section \<open>Concrete runs with the library instance\<close>

lemma demo_fields [simp]:
  "sha256 demo_lib = (\<lambda>bs. of_nat (length bs) + 1)"
  "utf8_encode demo_lib = demo_bytes"
  "utf8_decode demo_lib = (\<lambda>bs. Some (demo_text bs))"
  "bytes_hex demo_lib = demo_hex"
  "bytes_fromhex demo_lib = demo_fromhex"
  "b64encode demo_lib = demo_hex"
  "b64decode demo_lib = demo_fromhex"
  "json_dumps demo_lib = demo_dumps"
  "json_loads demo_lib = demo_loads"
  "json_loads_bytes demo_lib = (\<lambda>bs. demo_loads (demo_text bs))"
  by (simp_all add: demo_lib_def)

lemma demo_payload_text:
  \<open>demo_dumps (payload_dict demo_lib ''hi'' []) = ''{"body": "hi", "attachments": []}''\<close>
  by (simp add: payload_dict_def json_quote_def json_escape_def)

lemma demo_payload_length: "length (plaintext_payload_bytes demo_lib ''hi'' []) = 33"
  by (simp add: plaintext_payload_bytes_def demo_payload_text demo_bytes_def)

lemma demo_decode_hi: "utf8_decode demo_lib (demo_bytes ''hi'') = Some ''hi''"
  by (simp add: demo_text_bytes)

lemma demo_run_pqc1:
  "encrypt_envelope demo_lib demo_entropy PNone demo_service demo_firebase (demo_bytes ''hi'') []
     (demo_kwargs 1 ''pqc'')
   = (Inr (Some demo_envelope_pqc1), demo_service, demo_firebase)"
  by (simp add: encrypt_envelope_def demo_text_bytes demo_kwargs_def encrypt_pqc_def
      demo_fromhex_hex demo_payload_length Let_def demo_envelope_pqc1_def)

section \<open>Properties of encrypt\<close>

lemma map_sum_Some_Inr [simp]: "map_sum id Some x = Inr (Some y) \<longleftrightarrow> x = Inr y"
  by (cases x) auto

lemma map_sum_Some_Inl [simp]: "map_sum id Some x = Inl e \<longleftrightarrow> x = Inl e"
  by (cases x) auto

lemma length_xor_zip: "length (xor_zip a b) = min (length a) (length b)"
  by (simp add: xor_zip_def)

lemma encrypt_pqc_level1_inv:
  assumes "encrypt_pqc L R 1 payload_bytes kw = Inr envelope"
  shows "\<exists>key_hex key_id key.
           kw_key_hex kw = Some key_hex \<and> kw_key_id kw = Some key_id \<and>
           bytes_fromhex L key_hex = Some key \<and> length payload_bytes \<le> length key \<and>
           envelope = [(''qumail_version'', PStr ''4.0''), (''security_level'', PInt 1),
                       (''encryption_method'', PStr ''pqc''), (''key_id'', PStr key_id),
                       (''payload'', PDict [(''ciphertext_b64'',
                          PStr (b64encode L (xor_zip payload_bytes key)))])]"
  using assms
  by (auto simp: encrypt_pqc_def Let_def split: option.splits if_splits sum.splits)

text \<open>What \<open>QKDService.get_quantum_key\<close> returns and leaves in the cache.\<close>

lemma qkd_get_quantum_key_result:
  "qkd_get_quantum_key L rnd now S F n rcpt = (r, S1, F1) \<Longrightarrow>
     \<exists>md. r = Inr md \<and> map_of md ''key_id'' = Some (PStr (''qkd_'' @ bytes_hex L rnd))
        \<and> map_of md ''key_hex''
            = Some (PStr (bytes_hex L (get_deterministic_key L (''qkd_'' @ bytes_hex L rnd) n)))
        \<and> map_of md ''key_length_bytes'' = Some (PInt n)
        \<and> quantum_keys_cache S1 (''qkd_'' @ bytes_hex L rnd) = Some md
        \<and> qkd_client S1"
  by (auto simp: qkd_get_quantum_key_def Let_def)

lemma encrypt_qkd_level1_inv:
  assumes "encrypt_qkd L R now S F 1 payload_bytes kw = (Inr envelope, S1, F1)"
  shows "\<exists>key.
           bytes_fromhex L (bytes_hex L (get_deterministic_key L
               (''qkd_'' @ bytes_hex L (rnd_key_id R)) (int (length payload_bytes)))) = Some key \<and>
           length payload_bytes \<le> length key \<and>
           envelope = [(''qumail_version'', PStr ''4.0''), (''security_level'', PInt 1),
                       (''encryption_method'', PStr ''qkd''),
                       (''key_id'', PStr (''qkd_'' @ bytes_hex L (rnd_key_id R))),
                       (''payload'', PDict [(''ciphertext_b64'',
                          PStr (b64encode L (xor_zip payload_bytes key)))])]"
proof -
  obtain r S' F' where g:
    "qkd_get_quantum_key L (rnd_key_id R) now S F (int (length payload_bytes))
       (kw_recipient_email kw) = (r, S', F')"
    by (metis prod_cases3)
  from qkd_get_quantum_key_result[OF g] obtain md where md: "r = Inr md"
    "map_of md ''key_id'' = Some (PStr (''qkd_'' @ bytes_hex L (rnd_key_id R)))"
    "map_of md ''key_hex'' = Some (PStr (bytes_hex L (get_deterministic_key L
        (''qkd_'' @ bytes_hex L (rnd_key_id R)) (int (length payload_bytes)))))"
    by blast
  show ?thesis
    using assms g md
    by (auto simp: encrypt_qkd_def crypto_get_quantum_key_def getitem_def fromhex_val_def Let_def
        split: if_splits option.splits sum.splits)
qed

text \<open>
  Claim C10. A successful level-1 encryption, with either method, puts into the
  envelope the base64 text of an OTP ciphertext that is exactly as long as the
  serialised payload; \<open>encrypt\<close> returns that envelope serialised.
\<close>

theorem C10_otp_ciphertext_length:
  assumes "encrypt_envelope L R now S F main_body_bytes attachments kw
             = (Inr (Some envelope), S1, F1)"
    and "kw_security_level kw = Some 1"
    and "utf8_decode L main_body_bytes = Some body"
  shows "\<exists>xor_ciphertext.
           map_of envelope ''payload''
             = Some (PDict [(''ciphertext_b64'', PStr (b64encode L xor_ciphertext))])
           \<and> length xor_ciphertext = length (plaintext_payload_bytes L body attachments)
           \<and> encrypt L R now S F main_body_bytes attachments kw
               = (Inr (Some (json_dumps L (PDict envelope))), S1, F1)"
proof -
  let ?pb = "plaintext_payload_bytes L body attachments"
  have enc: "encrypt L R now S F main_body_bytes attachments kw
               = (Inr (Some (json_dumps L (PDict envelope))), S1, F1)"
    using assms(1) by (simp add: encrypt_def)
  show ?thesis
  proof (cases "(case kw_encryption_method kw of None \<Rightarrow> ''pqc'' | Some m \<Rightarrow> m) = ''qkd''")
    case True
    with assms have "encrypt_qkd L R now S F 1 ?pb kw = (Inr envelope, S1, F1)"
      by (auto simp: encrypt_envelope_def Let_def split: prod.splits sum.splits)
    from encrypt_qkd_level1_inv[OF this] enc show ?thesis
      by (auto simp: length_xor_zip)
  next
    case False
    with assms have "encrypt_pqc L R 1 ?pb kw = Inr envelope"
      by (auto simp: encrypt_envelope_def Let_def split: prod.splits sum.splits)
    from encrypt_pqc_level1_inv[OF this] enc show ?thesis
      by (auto simp: length_xor_zip)
  qed
qed

theorem C10_otp_ciphertext_length_witness:
  "\<exists>xor_ciphertext.
     map_of demo_envelope_pqc1 ''payload''
       = Some (PDict [(''ciphertext_b64'', PStr (b64encode demo_lib xor_ciphertext))])
     \<and> length xor_ciphertext = length (plaintext_payload_bytes demo_lib ''hi'' [])
     \<and> encrypt demo_lib demo_entropy PNone demo_service demo_firebase (demo_bytes ''hi'') []
          (demo_kwargs 1 ''pqc'')
        = (Inr (Some (json_dumps demo_lib (PDict demo_envelope_pqc1))),
           demo_service, demo_firebase)"
proof -
  have level: "kw_security_level (demo_kwargs 1 ''pqc'') = Some 1"
    by (simp add: demo_kwargs_def)
  show ?thesis
    using C10_otp_ciphertext_length [OF demo_run_pqc1 level demo_decode_hi] .
qed

section \<open>Properties of decrypt after encrypt\<close>

lemma xor_zip_cancel: "length p \<le> length k \<Longrightarrow> xor_zip (xor_zip p k) k = p"
proof (induction p arbitrary: k)
  case Nil
  then show ?case by (simp add: xor_zip_def)
next
  case (Cons a p)
  then obtain b k' where k: "k = b # k'" by (cases k) auto
  with Cons.prems have "length p \<le> length k'" by simp
  from Cons.IH[OF this] show ?case
    by (simp add: k xor_zip_def xor.assoc)
qed

lemma decode_attachments_payload:
  assumes "codecs_ok L"
  shows "decode_attachments L
           (map (\<lambda>(filename, content).
                   PDict [(''filename'', PStr filename), (''content_b64'', PStr (b64encode L content))])
                attachments)
         = Inr (map (\<lambda>(filename, content).
                   PDict [(''filename'', PStr filename), (''content_b64'', PStr (b64encode L content)),
                          (''content'', PBytes content)])
                attachments)"
proof (induction attachments)
  case Nil
  then show ?case by simp
next
  case (Cons a attachments)
  obtain f c where a: "a = (f, c)" by (cases a)
  have "b64decode L (b64encode L c) = Some c"
    using assms by (simp add: codecs_ok_def)
  then have "decode_attachment L
      (PDict [(''filename'', PStr f), (''content_b64'', PStr (b64encode L c))])
     = Inr (PDict [(''filename'', PStr f), (''content_b64'', PStr (b64encode L c)), (''content'', PBytes c)])"
    by (simp add: decode_attachment_def getitem_def b64decode_val_def setitem_def)
  with Cons show ?case by (simp add: a)
qed

lemma decode_payload_attachments_payload:
  assumes "codecs_ok L"
  shows "decode_payload_attachments L (payload_dict L body attachments)
           = Inr (returned_payload L body attachments)"
  by (simp add: decode_payload_attachments_def payload_dict_def returned_payload_def
      decode_attachments_payload[OF assms] setitem_def)

lemma aes_gcm_open_ok:
  "aead_ok L \<Longrightarrow> aes_gcm_encrypt L k n p = Inr (c, t) \<Longrightarrow> aes_gcm_open L k n t c = Inr p"
  by (simp add: aead_ok_def aes_gcm_open_def)

lemma finish_payload:
  assumes "codecs_ok L" "json_roundtrip L (payload_dict L body attachments)"
  shows "(case json_loads_bytes L (plaintext_payload_bytes L body attachments) of
            None \<Rightarrow> (Inl JSONDecodeError, S')
          | Some decrypted_payload \<Rightarrow> (decode_payload_attachments L decrypted_payload, S'))
         = (Inr (returned_payload L body attachments), S')"
  using assms
  by (simp add: json_roundtrip_def plaintext_payload_bytes_def decode_payload_attachments_payload)

lemma round_trip_level4:
  assumes "codecs_ok L"
  shows "decrypt_data L S' F'
     (PDict [(''qumail_version'', PStr ''4.0''), (''security_level'', PInt 4),
             (''plaintext_payload'', payload_dict L body attachments)]) kw'
     = (Inr (returned_payload L body attachments), S')"
  by (simp add: decrypt_data_def getitem_def eq_int_def decode_payload_attachments_payload[OF assms])

lemma round_trip_pqc1:
  assumes "codecs_ok L" "json_roundtrip L (payload_dict L body attachments)"
    and "bytes_fromhex L key_hex = Some key"
    and "length (plaintext_payload_bytes L body attachments) \<le> length key"
    and "dkw_key_hex kw' = Some key_hex"
  shows "decrypt_data L S' F'
     (PDict [(''qumail_version'', PStr ''4.0''), (''security_level'', PInt 1),
             (''encryption_method'', PStr ''pqc''), (''key_id'', PStr key_id),
             (''payload'', PDict [(''ciphertext_b64'',
                PStr (b64encode L (xor_zip (plaintext_payload_bytes L body attachments) key)))])]) kw'
     = (Inr (returned_payload L body attachments), S')"
proof -
  have b64: "b64decode L (b64encode L x) = Some x" for x
    using assms(1) by (simp add: codecs_ok_def)
  have "decrypt_pqc L (PInt 1)
     [(''qumail_version'', PStr ''4.0''), (''security_level'', PInt 1),
             (''encryption_method'', PStr ''pqc''), (''key_id'', PStr key_id),
             (''payload'', PDict [(''ciphertext_b64'',
                PStr (b64encode L (xor_zip (plaintext_payload_bytes L body attachments) key)))])] kw'
      = Inr (plaintext_payload_bytes L body attachments)"
    using assms(3-5)
    by (simp add: decrypt_pqc_def getitem_def eq_int_def b64_field_def subscript_def
        b64decode_val_def b64 length_xor_zip xor_zip_cancel)
  then show ?thesis
    by (simp add: decrypt_data_def getitem_def eq_int_def finish_payload[OF assms(1,2)])
qed


text \<open>
  \<open>decrypt\<close> on an envelope of the form \<open>encrypt\<close> builds: the key is found, the fields
  are decoded, and what remains is the AEAD call and the parsing of its result.
\<close>

definition finish :: "lib \<Rightarrow> qkd_service \<Rightarrow> error + bytes \<Rightarrow> (error + pyval) \<times> qkd_service" where
  "finish L S' r =
     (case r of
        Inl e \<Rightarrow> (Inl e, S')
      | Inr decrypted_payload_bytes \<Rightarrow>
          (case json_loads_bytes L decrypted_payload_bytes of
             None \<Rightarrow> (Inl JSONDecodeError, S')
           | Some p \<Rightarrow> (decode_payload_attachments L p, S')))"

lemma finish_ok:
  assumes "codecs_ok L" "json_roundtrip L (payload_dict L body attachments)"
  shows "finish L S' (Inr (plaintext_payload_bytes L body attachments))
           = (Inr (returned_payload L body attachments), S')"
  using finish_payload[OF assms] by (simp add: finish_def)

lemma finish_Inl: "finish L S' (Inl e) = (Inl e, S')"
  by (simp add: finish_def)

lemma decrypt_data_pqc2:
  assumes "codecs_ok L"
    and "bytes_fromhex L key_hex = Some key"
    and "dkw_key_hex kw' = Some key_hex"
  shows "decrypt_data L S' F'
     (PDict [(''qumail_version'', PStr ''4.0''), (''security_level'', PInt 2),
             (''encryption_method'', PStr ''pqc''), (''key_id'', PStr key_id),
             (''payload'', PDict [(''ciphertext_b64'', PStr (b64encode L c)),
                                  (''nonce_b64'', PStr (b64encode L n)),
                                  (''auth_tag_b64'', PStr (b64encode L t))])]) kw'
     = finish L S' (aes_gcm_open L (take 32 key) n t c)"
proof -
  have b64: "b64decode L (b64encode L x) = Some x" for x
    using assms(1) by (simp add: codecs_ok_def)
  have "decrypt_pqc L (PInt 2)
     [(''qumail_version'', PStr ''4.0''), (''security_level'', PInt 2),
             (''encryption_method'', PStr ''pqc''), (''key_id'', PStr key_id),
             (''payload'', PDict [(''ciphertext_b64'', PStr (b64encode L c)),
                                  (''nonce_b64'', PStr (b64encode L n)),
                                  (''auth_tag_b64'', PStr (b64encode L t))])] kw'
      = aes_gcm_open L (take 32 key) n t c"
    using assms(2,3)
    by (simp add: decrypt_pqc_def getitem_def eq_int_def b64_field_def subscript_def
        b64decode_val_def b64)
  then show ?thesis
    by (simp add: decrypt_data_def getitem_def eq_int_def finish_def split: sum.splits)
qed

lemma decrypt_data_level3:
  assumes "codecs_ok L"
    and "dkw_private_key_b64 kw' = Some skb" "skb \<noteq> []" "b64decode L skb = Some sk"
    and "kem_decrypt_512 L kem_ct sk = Inr ss"
  shows "decrypt_data L S' F'
     (PDict [(''qumail_version'', PStr ''4.0''), (''security_level'', PInt 3),
             (''kem_ciphertext_b64'', PStr (b64encode L kem_ct)),
             (''encrypted_symmetric_key_b64'', PStr (b64encode L esk)),
             (''aes_payload'', PDict [(''nonce_b64'', PStr (b64encode L n)),
                                      (''auth_tag_b64'', PStr (b64encode L t)),
                                      (''ciphertext_b64'', PStr (b64encode L c))])]) kw'
     = finish L S' (aes_gcm_open L (xor_zip esk ss) n t c)"
proof -
  have b64: "b64decode L (b64encode L x) = Some x" for x
    using assms(1) by (simp add: codecs_ok_def)
  have "decrypt_level3 L
     [(''qumail_version'', PStr ''4.0''), (''security_level'', PInt 3),
             (''kem_ciphertext_b64'', PStr (b64encode L kem_ct)),
             (''encrypted_symmetric_key_b64'', PStr (b64encode L esk)),
             (''aes_payload'', PDict [(''nonce_b64'', PStr (b64encode L n)),
                                      (''auth_tag_b64'', PStr (b64encode L t)),
                                      (''ciphertext_b64'', PStr (b64encode L c))])] kw'
      = aes_gcm_open L (xor_zip esk ss) n t c"
    using assms(2-5)
    by (simp add: decrypt_level3_def getitem_def b64_field_def subscript_def
        b64decode_val_def b64 truthy_def)
  then show ?thesis
    by (simp add: decrypt_data_def getitem_def eq_int_def finish_def split: sum.splits)
qed

lemma decrypt_data_qkd2:
  assumes "codecs_ok L"
    and "crypto_get_quantum_key_by_id L S' F' (PStr kid) = (Inr md, S'')"
    and "map_of md ''key_hex'' = Some (PStr (bytes_hex L qk))"
  shows "decrypt_data L S' F'
     (PDict [(''qumail_version'', PStr ''4.0''), (''security_level'', PInt 2),
             (''encryption_method'', PStr ''qkd''), (''key_id'', PStr kid),
             (''payload'', PDict [(''ciphertext_b64'', PStr (b64encode L c)),
                                  (''nonce_b64'', PStr (b64encode L n)),
                                  (''auth_tag_b64'', PStr (b64encode L t)),
                                  (''salt_b64'', PStr (b64encode L salt))])]) kw'
     = finish L S'' (aes_gcm_open L (pbkdf2_hmac L 32 100000 salt qk) n t c)"
proof -
  have b64: "b64decode L (b64encode L x) = Some x" for x
    using assms(1) by (simp add: codecs_ok_def)
  have hex: "bytes_fromhex L (bytes_hex L x) = Some x" for x
    using assms(1) by (simp add: codecs_ok_def)
  have "decrypt_qkd L S' F' (PInt 2)
     [(''qumail_version'', PStr ''4.0''), (''security_level'', PInt 2),
             (''encryption_method'', PStr ''qkd''), (''key_id'', PStr kid),
             (''payload'', PDict [(''ciphertext_b64'', PStr (b64encode L c)),
                                  (''nonce_b64'', PStr (b64encode L n)),
                                  (''auth_tag_b64'', PStr (b64encode L t)),
                                  (''salt_b64'', PStr (b64encode L salt))])]
      = (aes_gcm_open L (pbkdf2_hmac L 32 100000 salt qk) n t c, S'')"
    using assms(2,3)
    by (simp add: decrypt_qkd_def getitem_def eq_int_def b64_field_def subscript_def
        b64decode_val_def b64 hex fromhex_val_def derive_aes_key_from_quantum_def)
  then show ?thesis
    by (simp add: decrypt_data_def getitem_def eq_int_def finish_def split: sum.splits)
qed

lemma decrypt_data_qkd1:
  assumes "codecs_ok L"
    and "crypto_get_quantum_key_by_id L S' F' (PStr kid) = (Inr md, S'')"
    and "map_of md ''key_hex'' = Some (PStr (bytes_hex L qk))"
    and "length c \<le> length qk"
  shows "decrypt_data L S' F'
     (PDict [(''qumail_version'', PStr ''4.0''), (''security_level'', PInt 1),
             (''encryption_method'', PStr ''qkd''), (''key_id'', PStr kid),
             (''payload'', PDict [(''ciphertext_b64'', PStr (b64encode L c))])]) kw'
     = finish L S'' (Inr (xor_zip c qk))"
proof -
  have b64: "b64decode L (b64encode L x) = Some x" for x
    using assms(1) by (simp add: codecs_ok_def)
  have hex: "bytes_fromhex L (bytes_hex L x) = Some x" for x
    using assms(1) by (simp add: codecs_ok_def)
  have "decrypt_qkd L S' F' (PInt 1)
     [(''qumail_version'', PStr ''4.0''), (''security_level'', PInt 1),
             (''encryption_method'', PStr ''qkd''), (''key_id'', PStr kid),
             (''payload'', PDict [(''ciphertext_b64'', PStr (b64encode L c))])]
      = (Inr (xor_zip c qk), S'')"
    using assms(2-4)
    by (simp add: decrypt_qkd_def getitem_def eq_int_def b64_field_def subscript_def
        b64decode_val_def b64 hex fromhex_val_def)
  then show ?thesis
    by (simp add: decrypt_data_def getitem_def eq_int_def finish_def split: sum.splits)
qed


text \<open>What a successful branch of \<open>encrypt\<close> has computed.\<close>

lemma encrypt_pqc_level2_inv:
  assumes "encrypt_pqc L R 2 payload_bytes kw = Inr envelope"
  shows "\<exists>key_hex key_id key c t.
           kw_key_hex kw = Some key_hex \<and> kw_key_id kw = Some key_id \<and>
           bytes_fromhex L key_hex = Some key \<and>
           aes_gcm_encrypt L (take 32 key) (rnd_nonce R) payload_bytes = Inr (c, t) \<and>
           envelope = [(''qumail_version'', PStr ''4.0''), (''security_level'', PInt 2),
                       (''encryption_method'', PStr ''pqc''), (''key_id'', PStr key_id),
                       (''payload'', PDict [(''ciphertext_b64'', PStr (b64encode L c)),
                                            (''nonce_b64'', PStr (b64encode L (rnd_nonce R))),
                                            (''auth_tag_b64'', PStr (b64encode L t))])]"
  using assms
  by (auto simp: encrypt_pqc_def Let_def split: option.splits if_splits sum.splits prod.splits)

lemma encrypt_level3_inv:
  assumes "encrypt_level3 L R payload_bytes kw = Inr envelope"
  shows "\<exists>pkb pk kem_ct ss c t.
           kw_recipient_public_key_b64 kw = Some pkb \<and> b64decode L pkb = Some pk \<and>
           kem_encrypt_512 L (rnd_kem R) pk = Inr (kem_ct, ss) \<and>
           aes_gcm_encrypt L (rnd_aes_key R) (rnd_nonce R) payload_bytes = Inr (c, t) \<and>
           envelope = [(''qumail_version'', PStr ''4.0''), (''security_level'', PInt 3),
             (''kem_ciphertext_b64'', PStr (b64encode L kem_ct)),
             (''encrypted_symmetric_key_b64'',
              PStr (b64encode L (xor_zip (ljust (rnd_aes_key R) (length ss)) ss))),
             (''aes_payload'', PDict [(''nonce_b64'', PStr (b64encode L (rnd_nonce R))),
                                      (''auth_tag_b64'', PStr (b64encode L t)),
                                      (''ciphertext_b64'', PStr (b64encode L c))])]"
  using assms
  by (auto simp: encrypt_level3_def Let_def split: option.splits if_splits sum.splits prod.splits)

text \<open>The state a qkd encryption leaves behind.\<close>

definition published :: "lib \<Rightarrow> string \<Rightarrow> int \<Rightarrow> pyval \<Rightarrow> string \<Rightarrow> pyval" where
  "published L kid n now rcpt =
     PDict [(''key_id'', PStr kid), (''key_length_bytes'', PInt n), (''timestamp'', now),
            (''recipient_email'', PStr rcpt), (''source'', PStr ''qkd_simulation'')]"

lemma encrypt_qkd_state:
  assumes "encrypt_qkd L R now S F level payload_bytes kw = (Inr envelope, S1, F1)"
  defines "kid \<equiv> ''qkd_'' @ bytes_hex L (rnd_key_id R)"
    and "n \<equiv> int (length payload_bytes)"
  shows "\<exists>md rcpt. quantum_keys_cache S1 kid = Some md
           \<and> map_of md ''key_hex'' = Some (PStr (bytes_hex L (get_deterministic_key L kid n)))
           \<and> map_of md ''key_length_bytes'' = Some (PInt n)
           \<and> kw_recipient_email kw = Some rcpt \<and> rcpt \<noteq> []
           \<and> (fb_online F \<longrightarrow> fb_nodes F1 (safe_key_id kid) = Some (published L kid n now rcpt))"
  using assms(1) unfolding kid_def n_def
  by (auto simp: encrypt_qkd_def crypto_get_quantum_key_def qkd_get_quantum_key_def Let_def
      truthy_def store_key_metadata_in_firebase_def published_def
      split: if_splits option.splits sum.splits prod.splits)

lemma encrypt_qkd_level2_inv:
  assumes "encrypt_qkd L R now S F 2 payload_bytes kw = (Inr envelope, S1, F1)"
    and "codecs_ok L"
  defines "kid \<equiv> ''qkd_'' @ bytes_hex L (rnd_key_id R)"
  shows "\<exists>c t.
           aes_gcm_encrypt L
             (pbkdf2_hmac L 32 100000 (rnd_salt R)
                (get_deterministic_key L kid (int (length payload_bytes))))
             (rnd_nonce R) payload_bytes = Inr (c, t) \<and>
           envelope = [(''qumail_version'', PStr ''4.0''), (''security_level'', PInt 2),
                       (''encryption_method'', PStr ''qkd''), (''key_id'', PStr kid),
                       (''payload'', PDict [(''ciphertext_b64'', PStr (b64encode L c)),
                                            (''nonce_b64'', PStr (b64encode L (rnd_nonce R))),
                                            (''auth_tag_b64'', PStr (b64encode L t)),
                                            (''salt_b64'', PStr (b64encode L (rnd_salt R)))])]"
proof -
  have hex: "bytes_fromhex L (bytes_hex L x) = Some x" for x
    using assms(2) by (simp add: codecs_ok_def)
  obtain r S' F' where g:
    "qkd_get_quantum_key L (rnd_key_id R) now S F (int (length payload_bytes))
       (kw_recipient_email kw) = (r, S', F')"
    by (metis prod_cases3)
  from qkd_get_quantum_key_result[OF g] obtain md where md: "r = Inr md"
    "map_of md ''key_id'' = Some (PStr kid)"
    "map_of md ''key_hex'' = Some (PStr (bytes_hex L (get_deterministic_key L
        kid (int (length payload_bytes)))))"
    unfolding kid_def by blast
  show ?thesis
    using assms(1) g md
    by (auto simp: encrypt_qkd_def crypto_get_quantum_key_def getitem_def fromhex_val_def Let_def
        hex derive_aes_key_from_quantum_def
        split: if_splits option.splits sum.splits prod.splits)
qed

text \<open>Finding the key again, from the cache or from the published record.\<close>

lemma key_by_id_cached:
  assumes "qkd_client S'" "quantum_keys_cache S' kid = Some md"
  shows "crypto_get_quantum_key_by_id L S' F' (PStr kid) = (Inr md, S')"
  using assms by (simp add: crypto_get_quantum_key_by_id_def qkd_get_quantum_key_by_id_def)

lemma key_by_id_firebase:
  assumes "qkd_client S'" "quantum_keys_cache S' kid = None" "fb_online F'"
    and "fb_nodes F' (safe_key_id kid) = Some (published L kid n now rcpt)"
  shows "\<exists>md S''. crypto_get_quantum_key_by_id L S' F' (PStr kid) = (Inr md, S'')
           \<and> map_of md ''key_hex'' = Some (PStr (bytes_hex L (get_deterministic_key L kid n)))"
  using assms
  by (simp add: crypto_get_quantum_key_by_id_def qkd_get_quantum_key_by_id_def
      get_key_metadata_from_firebase_def published_def getitem_def as_int_def setitem_def Let_def)


lemma qkd_retrieval:
  assumes enc: "encrypt_qkd L R now S F level payload_bytes kw = (Inr envelope, S1, F1)"
    and cl: "qkd_client S'"
    and st: "quantum_keys_cache S' (''qkd_'' @ bytes_hex L (rnd_key_id R))
               = quantum_keys_cache S1 (''qkd_'' @ bytes_hex L (rnd_key_id R)) \<or>
             quantum_keys_cache S' (''qkd_'' @ bytes_hex L (rnd_key_id R)) = None \<and> fb_online F \<and> fb_online F' \<and>
             fb_nodes F' (safe_key_id (''qkd_'' @ bytes_hex L (rnd_key_id R)))
               = fb_nodes F1 (safe_key_id (''qkd_'' @ bytes_hex L (rnd_key_id R)))"
  shows "\<exists>md S''. crypto_get_quantum_key_by_id L S' F' (PStr (''qkd_'' @ bytes_hex L (rnd_key_id R))) = (Inr md, S'')
           \<and> map_of md ''key_hex'' = Some (PStr (bytes_hex L (get_deterministic_key L
                 (''qkd_'' @ bytes_hex L (rnd_key_id R)) (int (length payload_bytes)))))"
proof -
  let ?kid = "''qkd_'' @ bytes_hex L (rnd_key_id R)"
  let ?n = "int (length payload_bytes)"
  from encrypt_qkd_state[OF enc] obtain md rcpt where
    c: "quantum_keys_cache S1 ?kid = Some md"
    and h: "map_of md ''key_hex'' = Some (PStr (bytes_hex L (get_deterministic_key L ?kid ?n)))"
    and p: "fb_online F \<longrightarrow> fb_nodes F1 (safe_key_id ?kid) = Some (published L ?kid ?n now rcpt)"
    by blast
  from st show ?thesis
  proof
    assume "quantum_keys_cache S' ?kid = quantum_keys_cache S1 ?kid"
    with c have "quantum_keys_cache S' ?kid = Some md" by simp
    from key_by_id_cached[OF cl this] h show ?thesis by blast
  next
    assume a: "quantum_keys_cache S' ?kid = None \<and> fb_online F \<and> fb_online F' \<and>
             fb_nodes F' (safe_key_id ?kid) = fb_nodes F1 (safe_key_id ?kid)"
    with p have "fb_nodes F' (safe_key_id ?kid) = Some (published L ?kid ?n now rcpt)" by simp
    with a key_by_id_firebase[OF cl, of ?kid F' L ?n now rcpt] show ?thesis by blast
  qed
qed

lemma ljust_same: "length a = n \<Longrightarrow> ljust a n = a"
  by (simp add: ljust_def)

text \<open>
  Claim C1. Whatever the level and the method, when \<open>encrypt\<close> returns an envelope
  and \<open>decrypt\<close> is given that envelope with the matching key material, it returns
  the payload that was encrypted: the body string, and every attachment with its
  filename and its content. Assumed: the codecs, AES-GCM and the KEM invert as they
  should, the random draws have their lengths, and JSON round-trips the payload dict
  and the envelope.
\<close>

theorem C1_round_trip:
  assumes lib: "codecs_ok L" "aead_ok L" "kem_ok L"
    and ent: "entropy_ok R"
    and body: "utf8_decode L main_body_bytes = Some body"
    and enc: "encrypt_envelope L R now S F main_body_bytes attachments kw
                = (Inr (Some envelope), S1, F1)"
    and json: "json_roundtrip L (PDict envelope)"
              "json_roundtrip L (payload_dict L body attachments)"
    and keys: "keys_match L R coins kw kw' F S1 F1 S' F'"
  shows "encrypt L R now S F main_body_bytes attachments kw
           = (Inr (Some (json_dumps L (PDict envelope))), S1, F1)
       \<and> fst (decrypt L S' F' (json_dumps L (PDict envelope)) kw')
           = Inr (returned_payload L body attachments)"
proof -
  let ?pb = "plaintext_payload_bytes L body attachments"
  have e: "encrypt L R now S F main_body_bytes attachments kw
           = (Inr (Some (json_dumps L (PDict envelope))), S1, F1)"
    using enc by (simp add: encrypt_def)
  have d: "decrypt L S' F' (json_dumps L (PDict envelope)) kw'
             = decrypt_data L S' F' (PDict envelope) kw'"
    using json(1) by (simp add: decrypt_def json_roundtrip_def)
  have hex: "bytes_fromhex L (bytes_hex L x) = Some x" for x
    using lib(1) by (simp add: codecs_ok_def)
  have "fst (decrypt_data L S' F' (PDict envelope) kw') = Inr (returned_payload L body attachments)"
  proof (cases "kw_security_level kw = Some 4")
    case True
    with enc body have "envelope = [(''qumail_version'', PStr ''4.0''), (''security_level'', PInt 4),
                              (''plaintext_payload'', payload_dict L body attachments)]"
      by (auto simp: encrypt_envelope_def Let_def)
    then show ?thesis by (simp add: round_trip_level4[OF lib(1)])
  next
    case n4: False
    show ?thesis
    proof (cases "kw_security_level kw = Some 3")
      case True
      with enc body have "encrypt_level3 L R ?pb kw = Inr envelope"
        by (auto simp: encrypt_envelope_def Let_def)
      from encrypt_level3_inv[OF this] obtain pkb pk kem_ct ss c t where
        i: "kw_recipient_public_key_b64 kw = Some pkb" "b64decode L pkb = Some pk"
           "kem_encrypt_512 L (rnd_kem R) pk = Inr (kem_ct, ss)"
           "aes_gcm_encrypt L (rnd_aes_key R) (rnd_nonce R) ?pb = Inr (c, t)"
        and env: "envelope = [(''qumail_version'', PStr ''4.0''), (''security_level'', PInt 3),
             (''kem_ciphertext_b64'', PStr (b64encode L kem_ct)),
             (''encrypted_symmetric_key_b64'',
              PStr (b64encode L (xor_zip (ljust (rnd_aes_key R) (length ss)) ss))),
             (''aes_payload'', PDict [(''nonce_b64'', PStr (b64encode L (rnd_nonce R))),
                                      (''auth_tag_b64'', PStr (b64encode L t)),
                                      (''ciphertext_b64'', PStr (b64encode L c))])]"
        by blast
      from keys True i(1) obtain skb where
        k: "dkw_private_key_b64 kw' = Some skb" "skb \<noteq> []"
           "b64decode L pkb = Some (snd (kem_keypair_512 L coins))"
           "b64decode L skb = Some (fst (kem_keypair_512 L coins))"
        by (auto simp: keys_match_def split: option.splits)
      from k(3) i(2) have pk: "kem_keypair_512 L coins = (fst (kem_keypair_512 L coins), pk)"
        by (metis option.inject prod.collapse)
      from lib(3) pk i(3) have
        kd: "kem_decrypt_512 L kem_ct (fst (kem_keypair_512 L coins)) = Inr ss" and len: "length ss = 32"
        unfolding kem_ok_def by blast+
      have "length (rnd_aes_key R) = 32" using ent by (simp add: entropy_ok_def)
      with len have "xor_zip (xor_zip (ljust (rnd_aes_key R) (length ss)) ss) ss = rnd_aes_key R"
        by (simp add: ljust_same xor_zip_cancel)
      with aes_gcm_open_ok[OF lib(2) i(4)]
      show ?thesis
        unfolding env decrypt_data_level3[OF lib(1) k(1,2,4) kd]
        by (simp add: finish_ok[OF lib(1) json(2)])
    next
      case n3: False
      from enc body n4 n3 obtain level where
        lv: "kw_security_level kw = Some level" "level = 1 \<or> level = 2"
        by (auto simp: encrypt_envelope_def Let_def split: option.splits if_splits)
      show ?thesis
      proof (cases "kw_encryption_method kw = Some ''qkd''")
        case True
        let ?kid = "''qkd_'' @ bytes_hex L (rnd_key_id R)"
        let ?qk = "get_deterministic_key L ?kid (int (length ?pb))"
        from enc body lv True have q: "encrypt_qkd L R now S F level ?pb kw = (Inr envelope, S1, F1)"
          by (auto simp: encrypt_envelope_def Let_def split: prod.splits)
        from keys n4 n3 True have cl: "qkd_client S'"
          and st: "quantum_keys_cache S' ?kid = quantum_keys_cache S1 ?kid \<or>
             quantum_keys_cache S' ?kid = None \<and> fb_online F \<and> fb_online F' \<and>
             fb_nodes F' (safe_key_id ?kid) = fb_nodes F1 (safe_key_id ?kid)"
          by (auto simp: keys_match_def Let_def)
        from qkd_retrieval[OF q cl st] obtain md S'' where
          r: "crypto_get_quantum_key_by_id L S' F' (PStr ?kid) = (Inr md, S'')"
             "map_of md ''key_hex'' = Some (PStr (bytes_hex L ?qk))"
          by blast
        from lv(2) show ?thesis
        proof
          assume "level = 1"
          with q have "encrypt_qkd L R now S F 1 ?pb kw = (Inr envelope, S1, F1)" by simp
          from encrypt_qkd_level1_inv[OF this] obtain key where
            kk: "bytes_fromhex L (bytes_hex L ?qk) = Some key" "length ?pb \<le> length key"
            and env: "envelope = [(''qumail_version'', PStr ''4.0''), (''security_level'', PInt 1),
                       (''encryption_method'', PStr ''qkd''), (''key_id'', PStr ?kid),
                       (''payload'', PDict [(''ciphertext_b64'',
                          PStr (b64encode L (xor_zip ?pb key)))])]"
            by blast
          from kk(1) have key: "key = ?qk" by (simp add: hex)
          have "length (xor_zip ?pb ?qk) \<le> length ?qk" by (simp add: length_xor_zip)
          from decrypt_data_qkd1[OF lib(1) r this, of kw'] kk(2) show ?thesis
            unfolding env key
            by (simp add: xor_zip_cancel finish_ok[OF lib(1) json(2)])
        next
          assume "level = 2"
          with q have "encrypt_qkd L R now S F 2 ?pb kw = (Inr envelope, S1, F1)" by simp
          from encrypt_qkd_level2_inv[OF this lib(1)] obtain c t where
            a: "aes_gcm_encrypt L (pbkdf2_hmac L 32 100000 (rnd_salt R) ?qk) (rnd_nonce R) ?pb = Inr (c, t)"
            and env: "envelope = [(''qumail_version'', PStr ''4.0''), (''security_level'', PInt 2),
                       (''encryption_method'', PStr ''qkd''), (''key_id'', PStr ?kid),
                       (''payload'', PDict [(''ciphertext_b64'', PStr (b64encode L c)),
                                            (''nonce_b64'', PStr (b64encode L (rnd_nonce R))),
                                            (''auth_tag_b64'', PStr (b64encode L t)),
                                            (''salt_b64'', PStr (b64encode L (rnd_salt R)))])]"
            by blast
          from aes_gcm_open_ok[OF lib(2) a] show ?thesis
            unfolding env decrypt_data_qkd2[OF lib(1) r]
            by (simp add: finish_ok[OF lib(1) json(2)])
        qed
      next
        case False
        then have m: "(case kw_encryption_method kw of None \<Rightarrow> ''pqc'' | Some m \<Rightarrow> m) \<noteq> ''qkd''"
          by (auto split: option.splits)
        from enc body lv m have p: "encrypt_pqc L R level ?pb kw = Inr envelope"
          by (auto simp: encrypt_envelope_def Let_def split: prod.splits)
        from keys n4 n3 False have kh: "dkw_key_hex kw' = kw_key_hex kw"
          by (auto simp: keys_match_def)
        from lv(2) show ?thesis
        proof
          assume "level = 1"
          with p have "encrypt_pqc L R 1 ?pb kw = Inr envelope" by simp
          from encrypt_pqc_level1_inv[OF this] obtain key_hex key_id key where
            kk: "kw_key_hex kw = Some key_hex" "bytes_fromhex L key_hex = Some key"
                "length ?pb \<le> length key"
            and env: "envelope = [(''qumail_version'', PStr ''4.0''), (''security_level'', PInt 1),
                       (''encryption_method'', PStr ''pqc''), (''key_id'', PStr key_id),
                       (''payload'', PDict [(''ciphertext_b64'',
                          PStr (b64encode L (xor_zip ?pb key)))])]"
            by blast
          from kh kk(1) have "dkw_key_hex kw' = Some key_hex" by simp
          from round_trip_pqc1[OF lib(1) json(2) kk(2,3) this] show ?thesis
            unfolding env by simp
        next
          assume "level = 2"
          with p have "encrypt_pqc L R 2 ?pb kw = Inr envelope" by simp
          from encrypt_pqc_level2_inv[OF this] obtain key_hex key_id key c t where
            kk: "kw_key_hex kw = Some key_hex" "bytes_fromhex L key_hex = Some key"
                "aes_gcm_encrypt L (take 32 key) (rnd_nonce R) ?pb = Inr (c, t)"
            and env: "envelope = [(''qumail_version'', PStr ''4.0''), (''security_level'', PInt 2),
                       (''encryption_method'', PStr ''pqc''), (''key_id'', PStr key_id),
                       (''payload'', PDict [(''ciphertext_b64'', PStr (b64encode L c)),
                                            (''nonce_b64'', PStr (b64encode L (rnd_nonce R))),
                                            (''auth_tag_b64'', PStr (b64encode L t))])]"
            by blast
          from kh kk(1) have "dkw_key_hex kw' = Some key_hex" by simp
          from decrypt_data_pqc2[OF lib(1) kk(2) this] aes_gcm_open_ok[OF lib(2) kk(3)]
          show ?thesis
            unfolding env by (simp add: finish_ok[OF lib(1) json(2)])
        qed
      qed
    qed
  qed
  with e d show ?thesis by simp
qed

section \<open>Properties of decrypt on incomplete envelopes\<close>

lemma eq_int_3_not_4: "eq_int level 3 \<Longrightarrow> \<not> eq_int level 4"
  by (auto simp: eq_int_def split: pyval.splits if_splits)

lemma decrypt_level3_no_key:
  "map_of data ''aes_payload'' = Some aes_payload \<Longrightarrow> \<not> truthy (dkw_private_key_b64 kw) \<Longrightarrow>
   decrypt_level3 L data kw = Inl (DecryptionError ''Missing private key for local decapsulation.'' None)"
  by (simp add: decrypt_level3_def getitem_def)

text \<open>
  Claim C7. A level-3 envelope (it carries \<open>aes_payload\<close>) decrypted without a private
  key, or with an empty one, raises the \<open>DecryptionError\<close> for the missing key. Neither
  the decapsulation nor AES-GCM is called: the result is the same whatever those two
  functions are, also when they would raise.
\<close>

theorem C7_missing_private_key:
  assumes "json_loads L json_string = Some (PDict data)"
    and "map_of data ''security_level'' = Some level" and "eq_int level 3"
    and "map_of data ''aes_payload'' = Some aes_payload"
    and "\<not> truthy (dkw_private_key_b64 kw)"
  shows "decrypt L S F json_string kw
           = (Inl (DecryptionError ''Missing private key for local decapsulation.'' None), S)
       \<and> decrypt (L\<lparr>kem_decrypt_512 := kem, aes_gcm_decrypt := aead\<rparr>) S F json_string kw
           = (Inl (DecryptionError ''Missing private key for local decapsulation.'' None), S)"
proof -
  have "decrypt L' S F json_string kw
           = (Inl (DecryptionError ''Missing private key for local decapsulation.'' None), S)"
    if "json_loads L' json_string = Some (PDict data)" for L'
    using that assms(2-5) eq_int_3_not_4[OF assms(3)]
    by (simp add: decrypt_def decrypt_data_def getitem_def decrypt_level3_no_key)
  from this[of L] this[of "L\<lparr>kem_decrypt_512 := kem, aes_gcm_decrypt := aead\<rparr>"] assms(1)
  show ?thesis by simp
qed


lemma demo_parse_level3:
  \<open>demo_loads ''{"qumail_version": "4.0", "security_level": 3, "kem_ciphertext_b64": "0909090909090909090909090909090909090909090909090909090909090909", "encrypted_symmetric_key_b64": "0303030303030303030303030303030303030303030303030303030303030303", "aes_payload": {"nonce_b64": "010101010101010101010101", "auth_tag_b64": "70707070707070707070707070707070", "ciphertext_b64": "7b22626f6479223a20226869222c20226174746163686d656e7473223a205b5d7d"}}''
   = Some (PDict demo_envelope_level3)\<close>
  by code_simp

theorem C7_missing_private_key_witness:
  \<open>decrypt demo_lib demo_service demo_firebase
     ''{"qumail_version": "4.0", "security_level": 3, "kem_ciphertext_b64": "0909090909090909090909090909090909090909090909090909090909090909", "encrypted_symmetric_key_b64": "0303030303030303030303030303030303030303030303030303030303030303", "aes_payload": {"nonce_b64": "010101010101010101010101", "auth_tag_b64": "70707070707070707070707070707070", "ciphertext_b64": "7b22626f6479223a20226869222c20226174746163686d656e7473223a205b5d7d"}}''
     no_decrypt_kwargs
    = (Inl (DecryptionError ''Missing private key for local decapsulation.'' None), demo_service)
   \<and> decrypt failing_lib demo_service demo_firebase
     ''{"qumail_version": "4.0", "security_level": 3, "kem_ciphertext_b64": "0909090909090909090909090909090909090909090909090909090909090909", "encrypted_symmetric_key_b64": "0303030303030303030303030303030303030303030303030303030303030303", "aes_payload": {"nonce_b64": "010101010101010101010101", "auth_tag_b64": "70707070707070707070707070707070", "ciphertext_b64": "7b22626f6479223a20226869222c20226174746163686d656e7473223a205b5d7d"}}''
     no_decrypt_kwargs
    = (Inl (DecryptionError ''Missing private key for local decapsulation.'' None), demo_service)\<close>
proof -
  have parse: \<open>json_loads demo_lib ''{"qumail_version": "4.0", "security_level": 3, "kem_ciphertext_b64": "0909090909090909090909090909090909090909090909090909090909090909", "encrypted_symmetric_key_b64": "0303030303030303030303030303030303030303030303030303030303030303", "aes_payload": {"nonce_b64": "010101010101010101010101", "auth_tag_b64": "70707070707070707070707070707070", "ciphertext_b64": "7b22626f6479223a20226869222c20226174746163686d656e7473223a205b5d7d"}}''
      = Some (PDict demo_envelope_level3)\<close>
    by (simp add: demo_parse_level3)
  have level: "map_of demo_envelope_level3 ''security_level'' = Some (PInt 3)"
    by (simp add: demo_envelope_level3_def)
  have three: "eq_int (PInt 3) 3"
    by (simp add: eq_int_def)
  have payload: "map_of demo_envelope_level3 ''aes_payload''
      = Some (PDict [(''nonce_b64'', PStr ''010101010101010101010101''),
              (''auth_tag_b64'', PStr ''70707070707070707070707070707070''),
              (''ciphertext_b64'',
               PStr ''7b22626f6479223a20226869222c20226174746163686d656e7473223a205b5d7d'')])"
    by (simp add: demo_envelope_level3_def)
  have nokey: "\<not> truthy (dkw_private_key_b64 no_decrypt_kwargs)"
    by (simp add: truthy_def no_decrypt_kwargs_def)
  show ?thesis
    using C7_missing_private_key [OF parse level three payload nokey,
        where S = demo_service and F = demo_firebase
          and kem = "\<lambda>kem_ciphertext private_key. Inl KemError"
          and aead = "\<lambda>key nonce tag ciphertext. Inl ValueError"]
    by (simp add: failing_lib_def)
qed





lemma eq_int_excl: "eq_int level m \<Longrightarrow> m \<noteq> n \<Longrightarrow> \<not> eq_int level n"
  by (auto simp: eq_int_def split: pyval.splits if_splits)















end
